theory Spec2Isabelle
  imports Main
begin

section \<open>Values of the Go runtime and of encoding/xml that the client handles\<close>

text \<open>
  A Go \<^verbatim>\<open>error\<close> is either the distinguished value \<^verbatim>\<open>io.EOF\<close> or some other
  error, of which the client only ever reads the message (\<^verbatim>\<open>err.Error()\<close>);
  \<^verbatim>\<open>errors.New(s)\<close> builds the latter.
\<close>

datatype error = io_EOF | errorString string

fun Error :: "error \<Rightarrow> string" where
  "Error io_EOF = ''EOF''"
| "Error (errorString s) = s"

definition errors_New :: "string \<Rightarrow> error" where
  "errors_New s = errorString s"

text \<open>
  A call either returns to its caller or ends the whole process:
  \<^verbatim>\<open>log.Fatal(v...)\<close> prints its operands and calls \<^verbatim>\<open>os.Exit(1)\<close>.
  \<open>Exit\<close> carries the printed line.
\<close>

datatype 'a outcome = Exit string | Return 'a

text \<open>\<^verbatim>\<open>xml.Name\<close>, \<^verbatim>\<open>xml.Attr\<close>, \<^verbatim>\<open>xml.StartElement\<close> and \<^verbatim>\<open>xml.Token\<close>.\<close>

record Name =
  Space :: string
  Local :: string

definition zeroName :: Name where
  "zeroName = \<lparr>Space = '''', Local = ''''\<rparr>"

record Attr =
  attrName :: Name
  attrValue :: string

record StartElement =
  seName :: Name
  seAttr :: "Attr list"

datatype token =
    TStartElement StartElement
  | TEndElement Name
  | TCharData string
  | TComment string
  | TProcInst string string
  | TDirective string

text \<open>
  The decoder reads the connection.  Its state is what is still to come: the
  tokens \<^verbatim>\<open>Token()\<close> will deliver, and the error it reports once they are used up
  (\<^verbatim>\<open>io.EOF\<close> when the peer closed the connection cleanly, another error when the
  read failed or the markup is broken).
\<close>

record decoder =
  toks :: "token list"
  readErr :: error

definition Token :: "decoder \<Rightarrow> token option \<times> error option \<times> decoder" where
  "Token d = (case toks d of
      [] \<Rightarrow> (None, Some (readErr d), d)
    | t # ts \<Rightarrow> (Some t, None, d\<lparr>toks := ts\<rparr>))"

section \<open>The protocol structures of xmpp.go\<close>

definition nsStream :: string where "nsStream = ''http://etherx.jabber.org/streams''"
definition nsTLS :: string where "nsTLS = ''urn:ietf:params:xml:ns:xmpp-tls''"
definition nsSASL :: string where "nsSASL = ''urn:ietf:params:xml:ns:xmpp-sasl''"
definition nsBind :: string where "nsBind = ''urn:ietf:params:xml:ns:xmpp-bind''"
definition nsClient :: string where "nsClient = ''jabber:client''"

text \<open>
  One record per struct of the source, a field per field; a field name carries
  its struct's name because the structs share field names.  A Go slice is a
  list, a pointer field an option.
\<close>

record tlsStartTLS =
  tlsStartTLS_XMLName :: Name
  tlsStartTLS_Required :: bool

record tlsProceed =
  tlsProceed_XMLName :: Name

record tlsFailure =
  tlsFailure_XMLName :: Name

record saslMechanisms =
  saslMechanisms_XMLName :: Name
  Mechanism :: "string list"

record saslAbort =
  saslAbort_XMLName :: Name

record saslSuccess =
  saslSuccess_XMLName :: Name

record saslFailure =
  saslFailure_XMLName :: Name
  saslFailure_Any :: Name

record bindBind =
  bindBind_XMLName :: Name
  Resource :: string
  Jid :: string

record streamFeatures =
  streamFeatures_XMLName :: Name
  StartTLS :: tlsStartTLS
  Mechanisms :: saslMechanisms
  streamFeatures_Bind :: bindBind
  Session :: bool

record streamError =
  streamError_XMLName :: Name
  streamError_Any :: Name
  streamError_Text :: string

record Message =
  Message_XMLName :: Name
  Message_From :: string
  Message_Id :: string
  Message_To :: string
  Message_Type :: string
  Subject :: string
  Body :: string
  Thread :: string

record clientError =
  clientError_XMLName :: Name
  clientError_Code :: string
  clientError_Type :: string
  clientError_Any :: Name
  clientError_Text :: string

record Presence =
  Presence_XMLName :: Name
  Presence_From :: string
  Presence_Id :: string
  Presence_To :: string
  Presence_Type :: string
  Presence_Lang :: string
  Presence_Show :: string
  Presence_Status :: string
  Presence_Priority :: string
  Presence_Error :: "clientError option"

record clientIQ =
  clientIQ_XMLName :: Name
  clientIQ_From :: string
  clientIQ_Id :: string
  clientIQ_To :: string
  clientIQ_Type :: string
  clientIQ_Error :: clientError
  clientIQ_Bind :: bindBind

text \<open>The zero values, as \<^verbatim>\<open>&T{}\<close> and \<^verbatim>\<open>var x T\<close> allocate them.\<close>

definition zero_tlsStartTLS :: tlsStartTLS where
  "zero_tlsStartTLS = \<lparr>tlsStartTLS_XMLName = zeroName, tlsStartTLS_Required = False\<rparr>"

definition zero_saslMechanisms :: saslMechanisms where
  "zero_saslMechanisms = \<lparr>saslMechanisms_XMLName = zeroName, Mechanism = []\<rparr>"

definition zero_saslFailure :: saslFailure where
  "zero_saslFailure = \<lparr>saslFailure_XMLName = zeroName, saslFailure_Any = zeroName\<rparr>"

definition zero_bindBind :: bindBind where
  "zero_bindBind = \<lparr>bindBind_XMLName = zeroName, Resource = '''', Jid = ''''\<rparr>"

definition zero_streamFeatures :: streamFeatures where
  "zero_streamFeatures = \<lparr>streamFeatures_XMLName = zeroName, StartTLS = zero_tlsStartTLS,
     Mechanisms = zero_saslMechanisms, streamFeatures_Bind = zero_bindBind, Session = False\<rparr>"

definition zero_streamError :: streamError where
  "zero_streamError = \<lparr>streamError_XMLName = zeroName, streamError_Any = zeroName,
     streamError_Text = ''''\<rparr>"

definition zero_Message :: Message where
  "zero_Message = \<lparr>Message_XMLName = zeroName, Message_From = '''', Message_Id = '''',
     Message_To = '''', Message_Type = '''', Subject = '''', Body = '''', Thread = ''''\<rparr>"

definition zero_clientError :: clientError where
  "zero_clientError = \<lparr>clientError_XMLName = zeroName, clientError_Code = '''',
     clientError_Type = '''', clientError_Any = zeroName, clientError_Text = ''''\<rparr>"

definition zero_Presence :: Presence where
  "zero_Presence = \<lparr>Presence_XMLName = zeroName, Presence_From = '''', Presence_Id = '''',
     Presence_To = '''', Presence_Type = '''', Presence_Lang = '''', Presence_Show = '''',
     Presence_Status = '''', Presence_Priority = '''', Presence_Error = None\<rparr>"

definition zero_clientIQ :: clientIQ where
  "zero_clientIQ = \<lparr>clientIQ_XMLName = zeroName, clientIQ_From = '''', clientIQ_Id = '''',
     clientIQ_To = '''', clientIQ_Type = '''', clientIQ_Error = zero_clientError,
     clientIQ_Bind = zero_bindBind\<rparr>"

text \<open>
  What an \<^verbatim>\<open>interface{}\<close> of the dispatcher holds: a pointer to one of the
  structs (the constructor is the dynamic type, the argument what the pointer
  points to), or a plain string, which is not a pointer.
\<close>

datatype iface =
    PStreamFeatures streamFeatures
  | PStreamError streamError
  | PTlsStartTLS tlsStartTLS
  | PTlsProceed tlsProceed
  | PTlsFailure tlsFailure
  | PSaslMechanisms saslMechanisms
  | PSaslAbort saslAbort
  | PSaslSuccess saslSuccess
  | PSaslFailure saslFailure
  | PBindBind bindBind
  | PMessage Message
  | PPresence Presence
  | PClientIQ clientIQ
  | PClientError clientError
  | VString string

fun isPointer :: "iface \<Rightarrow> bool" where
  "isPointer (VString s) = False"
| "isPointer v = True"

section \<open>Decoding an element\<close>

text \<open>
  \<^verbatim>\<open>Decoder.DecodeElement(v, start)\<close> belongs to encoding/xml.  It refuses a
  \<open>v\<close> that is not a pointer with the error "non-pointer passed to Unmarshal",
  before it reads anything; otherwise it fills what \<open>v\<close> points to from the
  element at \<open>start\<close> (from the next element of the stream when \<open>start\<close> is
  nil).  How a struct is filled is the library's business, so it is a parameter
  \<open>U\<close> of everything that decodes: \<open>U v start d\<close> is the error, the filled
  value and the decoder afterwards.  The theorems below hold for every \<open>U\<close>
  unless they say otherwise.
\<close>

type_synonym unmarshal =
  "iface \<Rightarrow> StartElement option \<Rightarrow> decoder \<Rightarrow> error option \<times> iface \<times> decoder"

definition DecodeElement ::
  "unmarshal \<Rightarrow> iface \<Rightarrow> StartElement option \<Rightarrow> decoder \<Rightarrow> error option \<times> iface \<times> decoder" where
  "DecodeElement U v start d =
     (if \<not> isPointer v then (Some (errors_New ''non-pointer passed to Unmarshal''), v, d)
      else U v start d)"

section \<open>The dispatcher: nextStart and next\<close>

text \<open>
  \<^verbatim>\<open>nextStart\<close> (xmpp.go, lines 382-394): the loop asks for tokens until one is a
  start element.  A failed read does not return: it runs
  \<^verbatim>\<open>log.Fatal("token", err)\<close>, which prints the two operands (no blank
  between them, the first being a string) and ends the process.  The only
  \<^verbatim>\<open>return\<close> of the function has a nil error.
\<close>

function nextStart :: "decoder \<Rightarrow> (StartElement \<times> error option \<times> decoder) outcome" where
  "nextStart p =
     (case Token p of
        (t, Some err, p') \<Rightarrow> Exit (''token'' @ Error err)
      | (Some (TStartElement se), None, p') \<Rightarrow> Return (se, None, p')
      | (t, None, p') \<Rightarrow> nextStart p')"
  by pat_completeness auto
termination
  by (relation "measure (\<lambda>p. length (toks p))")
     (auto simp: Token_def split: list.splits)

declare nextStart.simps [simp del]

fun isStartElement :: "token \<Rightarrow> bool" where
  "isStartElement (TStartElement se) = True"
| "isStartElement t = False"

text \<open>
  The switch of \<^verbatim>\<open>next\<close> (lines 406-444): the key is the namespace, a blank and
  the local name in one string, compared with each case label in turn.  \<open>None\<close>
  is the default branch.  The challenge and response cases store the string
  \<^verbatim>\<open>""\<close>, not a pointer.
\<close>

definition alloc :: "StartElement \<Rightarrow> iface option" where
  "alloc se =
     (let key = Space (seName se) @ '' '' @ Local (seName se) in
      if key = nsStream @ '' features'' then Some (PStreamFeatures zero_streamFeatures)
      else if key = nsStream @ '' error'' then Some (PStreamError zero_streamError)
      else if key = nsTLS @ '' starttls'' then Some (PTlsStartTLS zero_tlsStartTLS)
      else if key = nsTLS @ '' proceed'' then Some (PTlsProceed \<lparr>tlsProceed_XMLName = zeroName\<rparr>)
      else if key = nsTLS @ '' failure'' then Some (PTlsFailure \<lparr>tlsFailure_XMLName = zeroName\<rparr>)
      else if key = nsSASL @ '' mechanisms'' then Some (PSaslMechanisms zero_saslMechanisms)
      else if key = nsSASL @ '' challenge'' then Some (VString '''')
      else if key = nsSASL @ '' response'' then Some (VString '''')
      else if key = nsSASL @ '' abort'' then Some (PSaslAbort \<lparr>saslAbort_XMLName = zeroName\<rparr>)
      else if key = nsSASL @ '' success'' then Some (PSaslSuccess \<lparr>saslSuccess_XMLName = zeroName\<rparr>)
      else if key = nsSASL @ '' failure'' then Some (PSaslFailure zero_saslFailure)
      else if key = nsBind @ '' bind'' then Some (PBindBind zero_bindBind)
      else if key = nsClient @ '' message'' then Some (PMessage zero_Message)
      else if key = nsClient @ '' presence'' then Some (PPresence zero_Presence)
      else if key = nsClient @ '' iq'' then Some (PClientIQ zero_clientIQ)
      else if key = nsClient @ '' error'' then Some (PClientError zero_clientError)
      else None)"

text \<open>
  \<^verbatim>\<open>next\<close> (lines 399-451) returns a name, a value (nil on every error) and an
  error.
\<close>

definition "next" ::
  "unmarshal \<Rightarrow> decoder \<Rightarrow> (Name \<times> iface option \<times> error option \<times> decoder) outcome" where
  "next U p =
     (case nextStart p of
        Exit line \<Rightarrow> Exit line
      | Return (se, err, p1) \<Rightarrow>
          (case err of
             Some e \<Rightarrow> Return (zeroName, None, Some e, p1)
           | None \<Rightarrow>
               (case alloc se of
                  None \<Rightarrow>
                    Return (zeroName, None,
                      Some (errors_New (''unexpected XMPP message '' @
                        Space (seName se) @ '' <'' @ Local (seName se) @ ''/>'')), p1)
                | Some nv \<Rightarrow>
                    (case DecodeElement U nv (Some se) p1 of
                       (Some e, nv', p2) \<Rightarrow> Return (zeroName, None, Some e, p2)
                     | (None, nv', p2) \<Rightarrow> Return (seName se, Some nv', None, p2)))))"

text \<open>
  The sixteen labels of the switch as the table the specification asks for:
  each label split at its blank into the pair of namespace and local name,
  looked up by equality of pairs (\<open>map_of\<close>).
\<close>

definition dispatchTable :: "((string \<times> string) \<times> iface) list" where
  "dispatchTable =
     [((nsStream, ''features''), PStreamFeatures zero_streamFeatures),
      ((nsStream, ''error''), PStreamError zero_streamError),
      ((nsTLS, ''starttls''), PTlsStartTLS zero_tlsStartTLS),
      ((nsTLS, ''proceed''), PTlsProceed \<lparr>tlsProceed_XMLName = zeroName\<rparr>),
      ((nsTLS, ''failure''), PTlsFailure \<lparr>tlsFailure_XMLName = zeroName\<rparr>),
      ((nsSASL, ''mechanisms''), PSaslMechanisms zero_saslMechanisms),
      ((nsSASL, ''challenge''), VString ''''),
      ((nsSASL, ''response''), VString ''''),
      ((nsSASL, ''abort''), PSaslAbort \<lparr>saslAbort_XMLName = zeroName\<rparr>),
      ((nsSASL, ''success''), PSaslSuccess \<lparr>saslSuccess_XMLName = zeroName\<rparr>),
      ((nsSASL, ''failure''), PSaslFailure zero_saslFailure),
      ((nsBind, ''bind''), PBindBind zero_bindBind),
      ((nsClient, ''message''), PMessage zero_Message),
      ((nsClient, ''presence''), PPresence zero_Presence),
      ((nsClient, ''iq''), PClientIQ zero_clientIQ),
      ((nsClient, ''error''), PClientError zero_clientError)]"

definition qname :: "StartElement \<Rightarrow> string \<times> string" where
  "qname se = (Space (seName se), Local (seName se))"

section \<open>Negotiation: Client.init\<close>

text \<open>
  The client: what it has written to the connection \<^verbatim>\<open>c.tls\<close> so far (one
  entry per write, oldest first), the bound identifier and the decoder that
  reads the connection.  The debug sinks of \<^verbatim>\<open>DefaultConfig\<close> only copy the
  traffic and are left out; the encoder \<^verbatim>\<open>c.enc\<close> has no state of its own.
\<close>

record Client =
  sent :: "string list"
  jid :: string
  dec :: decoder

text \<open>\<^verbatim>\<open>fmt.Fprintf(c.tls, ...)\<close>; the source ignores what the write returns.\<close>

definition Fprintf :: "Client \<Rightarrow> string \<Rightarrow> Client" where
  "Fprintf c s = c\<lparr>sent := sent c @ [s]\<rparr>"

text \<open>\<^verbatim>\<open>xmlSpecial\<close> and \<^verbatim>\<open>xmlEscape\<close> (lines 453-472).\<close>

definition xmlSpecial :: "char \<rightharpoonup> string" where
  "xmlSpecial =
     [CHR ''<'' \<mapsto> ''&lt;'', CHR ''>'' \<mapsto> ''&gt;'', CHR 0x22 \<mapsto> ''&quot;'',
      CHR 0x27 \<mapsto> ''&apos;'', CHR ''&'' \<mapsto> ''&amp;'']"

fun xmlEscape :: "string \<Rightarrow> string" where
  "xmlEscape [] = []"
| "xmlEscape (c # s) =
     (case xmlSpecial c of Some e \<Rightarrow> e @ xmlEscape s | None \<Rightarrow> c # xmlEscape s)"

text \<open>
  \<^verbatim>\<open>strings.SplitN(s, sep, 2)\<close> for a separator of one byte: the string itself
  when the separator does not occur, else what stands before its first
  occurrence and what stands after.
\<close>

definition SplitN2 :: "string \<Rightarrow> char \<Rightarrow> string list" where
  "SplitN2 s sep =
     (case dropWhile (\<lambda>c. c \<noteq> sep) s of
        [] \<Rightarrow> [s]
      | x # rest \<Rightarrow> [takeWhile (\<lambda>c. c \<noteq> sep) s, rest])"

text \<open>\<^verbatim>\<open>base64.StdEncoding\<close>: three bytes become four letters, padded with "=".\<close>

definition b64 :: "nat \<Rightarrow> char" where
  "b64 n = ''ABCDEFGHIJKLMNOPQRSTUVWXYZabcdefghijklmnopqrstuvwxyz0123456789+/'' ! (n mod 64)"

fun base64 :: "string \<Rightarrow> string" where
  "base64 [] = []"
| "base64 [a] =
     (let n = of_char a * 65536
      in [b64 (n div 262144), b64 (n div 4096), CHR ''='', CHR ''=''])"
| "base64 [a, b] =
     (let n = of_char a * 65536 + of_char b * 256
      in [b64 (n div 262144), b64 (n div 4096), b64 (n div 64), CHR ''=''])"
| "base64 (a # b # c # s) =
     (let n = of_char a * 65536 + of_char b * 256 + of_char c
      in [b64 (n div 262144), b64 (n div 4096), b64 (n div 64), b64 n] @ base64 s)"

text \<open>\<^verbatim>\<open>%v\<close> of a \<^verbatim>\<open>[]string\<close>: the elements between brackets, a blank between two.\<close>

fun joinBlank :: "string list \<Rightarrow> string" where
  "joinBlank [] = []"
| "joinBlank [x] = x"
| "joinBlank (x # y # ys) = x @ '' '' @ joinBlank (y # ys)"

definition fmtV :: "string list \<Rightarrow> string" where
  "fmtV ms = ''['' @ joinBlank ms @ '']''"

text \<open>The document-open element written at lines 147-150 and again at 200-202.\<close>

definition streamOpen :: "string \<Rightarrow> string" where
  "streamOpen domain =
     ''<stream:stream to='' @ [CHR 0x27] @ xmlEscape domain @ [CHR 0x27] @
     '' xmlns='' @ [CHR 0x27] @ nsClient @ [CHR 0x27, CHR 0x0A] @
     '' xmlns:stream='' @ [CHR 0x27] @ nsStream @ [CHR 0x27] @
     '' version='1.0'>'' @ [CHR 0x0A]"

definition xmlDecl :: string where
  "xmlDecl = ''<?xml version='1.0'?>'' @ [CHR 0x0A]"

text \<open>The loop of lines 168-174.\<close>

fun havePlain :: "string list \<Rightarrow> bool" where
  "havePlain [] = False"
| "havePlain (m # ms) = (if m = ''PLAIN'' then True else havePlain ms)"

text \<open>The auth element of lines 179-184.\<close>

definition authPlain :: "string \<Rightarrow> string \<Rightarrow> string" where
  "authPlain user passwd =
     (let raw = [CHR 0x00] @ user @ [CHR 0x00] @ passwd
      in ''<auth xmlns='' @ [CHR 0x27] @ nsSASL @ [CHR 0x27] @
         '' mechanism='PLAIN'>'' @ base64 raw @ ''</auth>'' @ [CHR 0x0A])"

text \<open>
  Lines 168-184, between the decoding of the features and the reading of the
  answer: the choice of the mechanism from the advertised list \<open>f\<close> holds.
  The only inputs are that list and the credentials.
\<close>

definition selectAuth :: "string \<Rightarrow> string \<Rightarrow> streamFeatures \<Rightarrow> Client \<Rightarrow> error option \<times> Client" where
  "selectAuth user passwd f c =
     (if \<not> havePlain (Mechanism (Mechanisms f))
      then (Some (errors_New (''PLAIN authentication is not an option: '' @
              fmtV (Mechanism (Mechanisms f)))), c)
      else (None, Fprintf c (authPlain user passwd)))"

text \<open>
  \<^verbatim>\<open>init\<close> is given in four parts, in the order of the source; \<open>init\<close> below
  runs them one after the other.  The first error returns from \<^verbatim>\<open>init\<close>, and
  a \<^verbatim>\<open>log.Fatal\<close> ends everything.
\<close>

text \<open>Lines 146-159: open the stream and read the server's stream element.\<close>

definition init_open :: "string \<Rightarrow> Client \<Rightarrow> (error option \<times> Client) outcome" where
  "init_open domain c =
     (let c = Fprintf c (xmlDecl @ streamOpen domain) in
      case nextStart (dec c) of
        Exit line \<Rightarrow> Exit line
      | Return (se, err, p) \<Rightarrow>
          (let c = c\<lparr>dec := p\<rparr> in
           case err of
             Some e \<Rightarrow> Return (Some e, c)
           | None \<Rightarrow>
               if Space (seName se) \<noteq> nsStream \<or> Local (seName se) \<noteq> ''stream''
               then Return (Some (errors_New (''xmpp: expected <stream> but got <'' @
                      Local (seName se) @ ''> in '' @ Space (seName se))), c)
               else Return (None, c)))"

text \<open>
  The target of a \<^verbatim>\<open>DecodeElement(&x, nil)\<close> is the local variable \<open>x\<close>, read
  back after the call.  In Go the library cannot change the type of \<open>x\<close>; an
  answer of another type, which only an ill-typed \<open>U\<close> gives, reads as the zero
  value.
\<close>

fun the_streamFeatures :: "iface \<Rightarrow> streamFeatures" where
  "the_streamFeatures (PStreamFeatures f) = f"
| "the_streamFeatures v = zero_streamFeatures"

fun the_clientIQ :: "iface \<Rightarrow> clientIQ" where
  "the_clientIQ (PClientIQ iq) = iq"
| "the_clientIQ v = zero_clientIQ"

text \<open>
  Lines 161-196: decode the features into the local variable \<open>f\<close>, choose the
  mechanism, write the auth element and read the answer.  The error of
  \<^verbatim>\<open>next\<close> is not looked at: on an error the value is nil and the type switch
  takes its default.  The part returns \<open>f\<close> too, which the next part decodes
  into again.
\<close>

definition init_auth ::
  "unmarshal \<Rightarrow> string \<Rightarrow> string \<Rightarrow> Client \<Rightarrow> (error option \<times> streamFeatures \<times> Client) outcome" where
  "init_auth U user passwd c =
     (case DecodeElement U (PStreamFeatures zero_streamFeatures) None (dec c) of
        (Some e, fv, p) \<Rightarrow>
          Return (Some (errors_New (''unmarshal <features>: '' @ Error e)),
            the_streamFeatures fv, c\<lparr>dec := p\<rparr>)
      | (None, fv, p) \<Rightarrow>
          (let f = the_streamFeatures fv in
           case selectAuth user passwd f (c\<lparr>dec := p\<rparr>) of
             (Some e, c1) \<Rightarrow> Return (Some e, f, c1)
           | (None, c1) \<Rightarrow>
               (case next U (dec c1) of
                  Exit line \<Rightarrow> Exit line
                | Return (name, val, err, p2) \<Rightarrow>
                    (let c2 = c1\<lparr>dec := p2\<rparr> in
                     case val of
                       Some (PSaslSuccess v) \<Rightarrow> Return (None, f, c2)
                     | Some (PSaslFailure v) \<Rightarrow>
                         Return (Some (errors_New (''auth failure: '' @
                           Local (saslFailure_Any v))), f, c2)
                     | _ \<Rightarrow>
                         Return (Some (errors_New (''expected <success> or <failure>, got <'' @
                           Local name @ ''> in '' @ Space name)), f, c2)))))"

text \<open>
  Lines 198-215: open the stream again, read the stream element and decode
  the features once more, into the same variable \<open>f\<close>.  The error of this
  second decoding is assigned and never read, and \<open>f\<close> is not read again.
\<close>

definition init_restart ::
  "unmarshal \<Rightarrow> string \<Rightarrow> streamFeatures \<Rightarrow> Client \<Rightarrow> (error option \<times> Client) outcome" where
  "init_restart U domain f c =
     (let c = Fprintf c (streamOpen domain) in
      case nextStart (dec c) of
        Exit line \<Rightarrow> Exit line
      | Return (se, err, p) \<Rightarrow>
          (let c = c\<lparr>dec := p\<rparr> in
           case err of
             Some e \<Rightarrow> Return (Some e, c)
           | None \<Rightarrow>
               if Space (seName se) \<noteq> nsStream \<or> Local (seName se) \<noteq> ''stream''
               then Return (Some (errors_New (''expected <stream>, got <'' @
                      Local (seName se) @ ''> in '' @ Space (seName se))), c)
               else
                 (case DecodeElement U (PStreamFeatures f) None (dec c) of
                    (err, fv, p1) \<Rightarrow> Return (None, c\<lparr>dec := p1\<rparr>))))"

text \<open>
  Line 223 compares \<^verbatim>\<open>&iq.Bind\<close> with nil.  \<open>iq\<close> is a local variable and
  \<^verbatim>\<open>Bind\<close> a field of struct type, so the address is never nil.
\<close>

definition addrIsNil :: "bindBind \<Rightarrow> bool" where
  "addrIsNil b = False"

text \<open>Lines 217-230: bind the resource and announce presence.\<close>

definition bindRequest :: string where
  "bindRequest = ''<iq type='set' id='x'><bind xmlns='' @ [CHR 0x27] @ nsBind @ [CHR 0x27] @
     ''/></iq>'' @ [CHR 0x0A]"

definition initialPresence :: string where
  "initialPresence = ''<presence xml:lang='en'><show>xa</show><status>'' @
     ''I for one welcome our new codebot overlords.</status></presence>''"

definition init_bind :: "unmarshal \<Rightarrow> Client \<Rightarrow> (error option \<times> Client) outcome" where
  "init_bind U c =
     (let c = Fprintf c bindRequest in
      case DecodeElement U (PClientIQ zero_clientIQ) None (dec c) of
        (Some e, v, p) \<Rightarrow>
          Return (Some (errors_New (''unmarshal <iq>: '' @ Error e)), c\<lparr>dec := p\<rparr>)
      | (None, v, p) \<Rightarrow>
          (let iq = the_clientIQ v; c = c\<lparr>dec := p\<rparr> in
           if addrIsNil (clientIQ_Bind iq)
           then Return (Some (errors_New ''<iq> result missing <bind>''), c)
           else
             (let c = c\<lparr>jid := Jid (clientIQ_Bind iq)\<rparr>
              in Return (None, Fprintf c initialPresence))))"

text \<open>\<^verbatim>\<open>Client.init\<close> (lines 127-231).\<close>

definition init :: "unmarshal \<Rightarrow> Client \<Rightarrow> string \<Rightarrow> string \<Rightarrow> (error option \<times> Client) outcome" where
  "init U c user passwd =
     (let a = SplitN2 user (CHR ''@'') in
      if length a \<noteq> 2
      then Return (Some (errors_New (''xmpp: invalid username (want user@domain): '' @ user)), c)
      else
        (let user' = a ! 0; domain = a ! 1 in
         case init_open domain c of
           Exit line \<Rightarrow> Exit line
         | Return (Some e, c1) \<Rightarrow> Return (Some e, c1)
         | Return (None, c1) \<Rightarrow>
             (case init_auth U user' passwd c1 of
                Exit line \<Rightarrow> Exit line
              | Return (Some e, f, c2) \<Rightarrow> Return (Some e, c2)
              | Return (None, f, c2) \<Rightarrow>
                  (case init_restart U domain f c2 of
                     Exit line \<Rightarrow> Exit line
                   | Return (Some e, c3) \<Rightarrow> Return (Some e, c3)
                   | Return (None, c3) \<Rightarrow> init_bind U c3))))"

section \<open>Receiving\<close>

text \<open>The type assertions \<^verbatim>\<open>val.(*Message)\<close> and \<^verbatim>\<open>val.(*Presence)\<close>.\<close>

fun asMessage :: "iface option \<Rightarrow> Message option" where
  "asMessage (Some (PMessage v)) = Some v"
| "asMessage val = None"

fun asPresence :: "iface option \<Rightarrow> Presence option" where
  "asPresence (Some (PPresence v)) = Some v"
| "asPresence val = None"

text \<open>
  \<^verbatim>\<open>Client.Recv\<close> (lines 234-249) loops until \<^verbatim>\<open>next\<close> fails or delivers a
  message or a presence; anything else is printed and dropped (standard
  output is not part of the model).  The loop need not end, so the result is
  an option: \<open>None\<close> is a call that never returns.
\<close>

partial_function (option) Recv ::
  "unmarshal \<Rightarrow> Client \<Rightarrow> (iface option \<times> error option \<times> Client) outcome option" where
  "Recv U c =
     (case next U (dec c) of
        Exit line \<Rightarrow> Some (Exit line)
      | Return (name, val, err, p) \<Rightarrow>
          (case err of
             Some e \<Rightarrow> Some (Return (None, Some e, c\<lparr>dec := p\<rparr>))
           | None \<Rightarrow>
               (case asMessage val of
                  Some v \<Rightarrow> Some (Return (Some (PMessage v), None, c\<lparr>dec := p\<rparr>))
                | None \<Rightarrow>
                    (case asPresence val of
                       Some v \<Rightarrow> Some (Return (Some (PPresence v), None, c\<lparr>dec := p\<rparr>))
                     | None \<Rightarrow> Recv U (c\<lparr>dec := p\<rparr>)))))"

section \<open>How encoding/xml decodes a message\<close>

text \<open>
  The rules of encoding/xml's \<^verbatim>\<open>Unmarshal\<close>, applied to the tags of the struct
  \<^verbatim>\<open>Message\<close> (lines 330-342).  The element name must be the one of the
  \<^verbatim>\<open>XMLName\<close> tag and is recorded in \<^verbatim>\<open>XMLName\<close>; an attribute goes to the
  field tagged with its local name and \<^verbatim>\<open>,attr\<close>; a child element goes to the
  first field tagged with its local name, which being a string receives the
  character data directly inside the child; a child that matches no field is
  skipped with \<^verbatim>\<open>Decoder.Skip\<close>, and so is an element inside a string's
  element.  \<^verbatim>\<open>Message\<close> has no field tagged \<^verbatim>\<open>,any\<close>, \<^verbatim>\<open>,innerxml\<close> or
  \<^verbatim>\<open>,chardata\<close>.
\<close>

text \<open>
  \<^verbatim>\<open>Decoder.Skip\<close>: read up to the end element that closes the open one;
  \<open>n\<close> counts the elements opened on the way.  \<open>None\<close>: the tokens ran out.
\<close>

fun skipToks :: "nat \<Rightarrow> token list \<Rightarrow> token list option" where
  "skipToks n [] = None"
| "skipToks n (TStartElement se # ts) = skipToks (Suc n) ts"
| "skipToks 0 (TEndElement nm # ts) = Some ts"
| "skipToks (Suc n) (TEndElement nm # ts) = skipToks n ts"
| "skipToks n (t # ts) = skipToks n ts"

lemma skipToks_shorter: "skipToks n ts = Some ts' \<Longrightarrow> length ts' < length ts"
  by (induction n ts rule: skipToks.induct) auto

text \<open>Decoding into a string: the character data up to the end of the element.\<close>

function (sequential) charData :: "string \<Rightarrow> token list \<Rightarrow> (string \<times> token list) option" where
  "charData acc [] = None"
| "charData acc (TCharData s # ts) = charData (acc @ s) ts"
| "charData acc (TEndElement nm # ts) = Some (acc, ts)"
| "charData acc (TStartElement se # ts) =
     (case skipToks 0 ts of None \<Rightarrow> None | Some ts' \<Rightarrow> charData acc ts')"
| "charData acc (t # ts) = charData acc ts"
  by pat_completeness auto
termination
  by (relation "measure (\<lambda>(acc, ts). length ts)") (auto dest: skipToks_shorter)

lemma charData_shorter: "charData acc ts = Some (s, ts') \<Longrightarrow> length ts' < length ts"
  by (induction acc ts rule: charData.induct) (auto split: option.splits dest: skipToks_shorter)

text \<open>The children of a message, up to its end element.\<close>

function (sequential) messageBody :: "Message \<Rightarrow> token list \<Rightarrow> (Message \<times> token list) option" where
  "messageBody m [] = None"
| "messageBody m (TEndElement nm # ts) = Some (m, ts)"
| "messageBody m (TStartElement se # ts) =
     (if Local (seName se) = ''subject'' then
        (case charData [] ts of
           None \<Rightarrow> None
         | Some (s, ts') \<Rightarrow> messageBody (m\<lparr>Subject := s\<rparr>) ts')
      else if Local (seName se) = ''body'' then
        (case charData [] ts of
           None \<Rightarrow> None
         | Some (s, ts') \<Rightarrow> messageBody (m\<lparr>Body := s\<rparr>) ts')
      else if Local (seName se) = ''thread'' then
        (case charData [] ts of
           None \<Rightarrow> None
         | Some (s, ts') \<Rightarrow> messageBody (m\<lparr>Thread := s\<rparr>) ts')
      else
        (case skipToks 0 ts of None \<Rightarrow> None | Some ts' \<Rightarrow> messageBody m ts'))"
| "messageBody m (t # ts) = messageBody m ts"
  by pat_completeness auto
termination
  by (relation "measure (\<lambda>(m, ts). length ts)")
     (auto dest: skipToks_shorter charData_shorter)

text \<open>One attribute of the start element, offered to every field tagged \<^verbatim>\<open>,attr\<close>.\<close>

definition messageAttr :: "Message \<Rightarrow> Attr \<Rightarrow> Message" where
  "messageAttr m a =
     (let l = Local (attrName a); v = attrValue a;
          m = (if l = ''from'' then m\<lparr>Message_From := v\<rparr> else m);
          m = (if l = ''id'' then m\<lparr>Message_Id := v\<rparr> else m);
          m = (if l = ''to'' then m\<lparr>Message_To := v\<rparr> else m);
          m = (if l = ''type'' then m\<lparr>Message_Type := v\<rparr> else m)
      in m)"

text \<open>
  Decoding the element that begins with \<open>start\<close> into a \<^verbatim>\<open>*Message\<close> that
  holds \<open>m\<close>.  When the tokens run out the decoder's error is returned.
\<close>

definition unmarshalMessage ::
  "Message \<Rightarrow> StartElement \<Rightarrow> decoder \<Rightarrow> error option \<times> iface \<times> decoder" where
  "unmarshalMessage m start d =
     (if Local (seName start) \<noteq> ''message''
      then (Some (errorString (''expected element type <message> but have <'' @
              Local (seName start) @ ''>'')), PMessage m, d)
      else if Space (seName start) \<noteq> nsClient
      then (Some (errorString
              (''expected element <message> in name space jabber:client but have '' @
               (if Space (seName start) = [] then ''no name space'' else Space (seName start)))),
            PMessage m, d)
      else
        (let m1 = foldl messageAttr (m\<lparr>Message_XMLName := seName start\<rparr>) (seAttr start) in
         case messageBody m1 (toks d) of
           None \<Rightarrow> (Some (readErr d), PMessage m1, d\<lparr>toks := []\<rparr>)
         | Some (m2, ts) \<Rightarrow> (None, PMessage m2, d\<lparr>toks := ts\<rparr>)))"

text \<open>A library \<open>U\<close> that decodes messages by these rules.\<close>

definition decodesMessages :: "unmarshal \<Rightarrow> bool" where
  "decodesMessages U = (\<forall>m se d. U (PMessage m) (Some se) d = unmarshalMessage m se d)"

text \<open>
  What \<^verbatim>\<open>next\<close> makes of a message element by these rules: the zero message
  with the element's name and attributes.
\<close>

definition decodedMessage :: "StartElement \<Rightarrow> Message" where
  "decodedMessage se =
     foldl messageAttr (zero_Message\<lparr>Message_XMLName := seName se\<rparr>) (seAttr se)"

text \<open>
  An element as a tree, and the tokens the decoder reads for it.  A child of a
  message is unmodelled when no field of \<^verbatim>\<open>Message\<close> is tagged with its name.
\<close>

datatype node = Element StartElement "node list" | Chars string

fun tokensOf :: "node \<Rightarrow> token list" where
  "tokensOf (Element se ns) =
     TStartElement se # concat (map tokensOf ns) @ [TEndElement (seName se)]"
| "tokensOf (Chars s) = [TCharData s]"

text \<open>An attribute without a namespace, and a start element, written short.\<close>

definition attr :: "string \<Rightarrow> string \<Rightarrow> Attr" where
  "attr l v = \<lparr>attrName = \<lparr>Space = [], Local = l\<rparr>, attrValue = v\<rparr>"

definition elem :: "string \<Rightarrow> string \<Rightarrow> Attr list \<Rightarrow> StartElement" where
  "elem ns l as = \<lparr>seName = \<lparr>Space = ns, Local = l\<rparr>, seAttr = as\<rparr>"

fun unmodelled :: "node \<Rightarrow> bool" where
  "unmodelled (Element se ns) = (Local (seName se) \<notin> {''subject'', ''body'', ''thread''})"
| "unmodelled (Chars s) = True"

section \<open>How encoding/xml decodes a presence\<close>

text \<open>
  The same rules applied to the tags of \<^verbatim>\<open>Presence\<close> (lines 349-361) and of
  \<^verbatim>\<open>clientError\<close> (lines 373-379).  All eight strings of \<^verbatim>\<open>Presence\<close> are
  attributes.  \<^verbatim>\<open>Error\<close> has no tag and a struct type with an \<^verbatim>\<open>XMLName\<close>
  tag, so it takes the child named \<^verbatim>\<open>error\<close> in the namespace jabber:client,
  allocating the \<^verbatim>\<open>clientError\<close> when the pointer is nil.  In \<^verbatim>\<open>clientError\<close>
  the untagged fields go by their own names: the attributes \<^verbatim>\<open>Code\<close> and
  \<^verbatim>\<open>Type\<close>, the child \<^verbatim>\<open>Text\<close>, and the child \<^verbatim>\<open>Any\<close>, of which an
  \<^verbatim>\<open>xml.Name\<close> records the name.
\<close>

text \<open>One attribute of an \<^verbatim>\<open>error\<close> element, and the children up to its end.\<close>

definition clientErrorAttr :: "clientError \<Rightarrow> Attr \<Rightarrow> clientError" where
  "clientErrorAttr ce a =
     (let l = Local (attrName a); v = attrValue a;
          ce = (if l = ''Code'' then ce\<lparr>clientError_Code := v\<rparr> else ce);
          ce = (if l = ''Type'' then ce\<lparr>clientError_Type := v\<rparr> else ce)
      in ce)"

function (sequential) clientErrorBody ::
  "clientError \<Rightarrow> token list \<Rightarrow> (clientError \<times> token list) option" where
  "clientErrorBody ce [] = None"
| "clientErrorBody ce (TEndElement nm # ts) = Some (ce, ts)"
| "clientErrorBody ce (TStartElement se # ts) =
     (if Local (seName se) = ''Any'' then
        (case skipToks 0 ts of
           None \<Rightarrow> None
         | Some ts' \<Rightarrow> clientErrorBody (ce\<lparr>clientError_Any := seName se\<rparr>) ts')
      else if Local (seName se) = ''Text'' then
        (case charData [] ts of
           None \<Rightarrow> None
         | Some (s, ts') \<Rightarrow> clientErrorBody (ce\<lparr>clientError_Text := s\<rparr>) ts')
      else
        (case skipToks 0 ts of None \<Rightarrow> None | Some ts' \<Rightarrow> clientErrorBody ce ts'))"
| "clientErrorBody ce (t # ts) = clientErrorBody ce ts"
  by pat_completeness auto
termination
  by (relation "measure (\<lambda>(ce, ts). length ts)")
     (auto dest: skipToks_shorter charData_shorter)

lemma clientErrorBody_shorter:
  "clientErrorBody ce ts = Some (ce', ts') \<Longrightarrow> length ts' < length ts"
proof (induction ce ts arbitrary: ce' ts' rule: clientErrorBody.induct)
  case (3 ce se ts)
  show ?case
  proof (cases "Local (seName se) = ''Text''")
    case True
    then have ne: "Local (seName se) \<noteq> ''Any''" by auto
    from "3.prems" True ne obtain s ts1 where
      c: "charData [] ts = Some (s, ts1)"
      and b: "clientErrorBody (ce\<lparr>clientError_Text := s\<rparr>) ts1 = Some (ce', ts')"
      by (auto split: option.splits)
    from "3.IH"(2) [OF ne True c refl b] charData_shorter [OF c]
    show ?thesis by simp
  next
    case False
    show ?thesis
    proof (cases "Local (seName se) = ''Any''")
      case True
      from "3.prems" True obtain ts1 where
        c: "skipToks 0 ts = Some ts1"
        and b: "clientErrorBody (ce\<lparr>clientError_Any := seName se\<rparr>) ts1 = Some (ce', ts')"
        by (auto split: option.splits)
      from "3.IH"(1) [OF True c b] skipToks_shorter [OF c]
      show ?thesis by simp
    next
      case ne: False
      from "3.prems" False ne obtain ts1 where
        c: "skipToks 0 ts = Some ts1"
        and b: "clientErrorBody ce ts1 = Some (ce', ts')"
        by (auto split: option.splits)
      from "3.IH"(3) [OF ne False c b] skipToks_shorter [OF c]
      show ?thesis by simp
    qed
  qed
qed auto

text \<open>Decoding the \<^verbatim>\<open>error\<close> child that begins with \<open>start\<close> into \<open>ce\<close>.\<close>

definition unmarshalClientError ::
  "clientError \<Rightarrow> StartElement \<Rightarrow> token list \<Rightarrow> (clientError \<times> token list) option" where
  "unmarshalClientError ce start ts =
     clientErrorBody
       (foldl clientErrorAttr (ce\<lparr>clientError_XMLName := seName start\<rparr>) (seAttr start)) ts"

text \<open>One attribute of a presence, and the children up to its end.\<close>

definition presenceAttr :: "Presence \<Rightarrow> Attr \<Rightarrow> Presence" where
  "presenceAttr p a =
     (let l = Local (attrName a); v = attrValue a;
          p = (if l = ''from'' then p\<lparr>Presence_From := v\<rparr> else p);
          p = (if l = ''id'' then p\<lparr>Presence_Id := v\<rparr> else p);
          p = (if l = ''to'' then p\<lparr>Presence_To := v\<rparr> else p);
          p = (if l = ''type'' then p\<lparr>Presence_Type := v\<rparr> else p);
          p = (if l = ''lang'' then p\<lparr>Presence_Lang := v\<rparr> else p);
          p = (if l = ''show'' then p\<lparr>Presence_Show := v\<rparr> else p);
          p = (if l = ''status'' then p\<lparr>Presence_Status := v\<rparr> else p);
          p = (if l = ''priority'' then p\<lparr>Presence_Priority := v\<rparr> else p)
      in p)"

function (sequential) presenceBody ::
  "Presence \<Rightarrow> token list \<Rightarrow> (Presence \<times> token list) option" where
  "presenceBody p [] = None"
| "presenceBody p (TEndElement nm # ts) = Some (p, ts)"
| "presenceBody p (TStartElement se # ts) =
     (if Local (seName se) = ''error'' \<and> Space (seName se) = nsClient then
        (case unmarshalClientError
                (case Presence_Error p of None \<Rightarrow> zero_clientError | Some ce \<Rightarrow> ce) se ts of
           None \<Rightarrow> None
         | Some (ce, ts') \<Rightarrow> presenceBody (p\<lparr>Presence_Error := Some ce\<rparr>) ts')
      else
        (case skipToks 0 ts of None \<Rightarrow> None | Some ts' \<Rightarrow> presenceBody p ts'))"
| "presenceBody p (t # ts) = presenceBody p ts"
  by pat_completeness auto
termination
  by (relation "measure (\<lambda>(p, ts). length ts)")
     (auto simp: unmarshalClientError_def dest: skipToks_shorter clientErrorBody_shorter)

text \<open>Decoding the element that begins with \<open>start\<close> into a \<^verbatim>\<open>*Presence\<close> that holds \<open>p\<close>.\<close>

definition unmarshalPresence ::
  "Presence \<Rightarrow> StartElement \<Rightarrow> decoder \<Rightarrow> error option \<times> iface \<times> decoder" where
  "unmarshalPresence p start d =
     (if Local (seName start) \<noteq> ''presence''
      then (Some (errorString (''expected element type <presence> but have <'' @
              Local (seName start) @ ''>'')), PPresence p, d)
      else if Space (seName start) \<noteq> nsClient
      then (Some (errorString
              (''expected element <presence> in name space jabber:client but have '' @
               (if Space (seName start) = [] then ''no name space'' else Space (seName start)))),
            PPresence p, d)
      else
        (let p1 = foldl presenceAttr (p\<lparr>Presence_XMLName := seName start\<rparr>) (seAttr start) in
         case presenceBody p1 (toks d) of
           None \<Rightarrow> (Some (readErr d), PPresence p1, d\<lparr>toks := []\<rparr>)
         | Some (p2, ts) \<Rightarrow> (None, PPresence p2, d\<lparr>toks := ts\<rparr>)))"

text \<open>A library \<open>U\<close> that decodes presences by these rules.\<close>

definition decodesPresences :: "unmarshal \<Rightarrow> bool" where
  "decodesPresences U = (\<forall>p se d. U (PPresence p) (Some se) d = unmarshalPresence p se d)"

section \<open>Sending\<close>

text \<open>
  \<^verbatim>\<open>Client.Send\<close> (lines 252-258) hands the value to the encoder and flushes.
  Encoding belongs to encoding/xml and is a parameter \<open>E\<close>: the error of
  \<^verbatim>\<open>Encode\<close> and the markup it produces.  On an error \<^verbatim>\<open>Send\<close> returns it
  without flushing; what a failed encoding may have written already is left
  out, as is a failing write.
\<close>

type_synonym marshal = "iface \<Rightarrow> error option \<times> string"

definition Send :: "marshal \<Rightarrow> Client \<Rightarrow> iface \<Rightarrow> error option \<times> Client" where
  "Send E c v =
     (case E v of
        (Some err, out) \<Rightarrow> (Some err, c)
      | (None, out) \<Rightarrow> (None, Fprintf c out))"

text \<open>
  The element encoding/xml's \<^verbatim>\<open>Marshal\<close> writes for a message and for a
  presence without an error, as the tree a decoder reads back from the markup.
  The name comes from the \<^verbatim>\<open>XMLName\<close> tag, whatever the field holds.  The
  start element declares the namespace and carries every field tagged
  \<^verbatim>\<open>,attr\<close>, empty or not; every other string is a child element of its own,
  which holds the string as character data (no token when it is empty) and
  is read back in the namespace it inherits.  That the strings come back as
  they were is the case for strings XML can carry.
\<close>

definition textNodes :: "string \<Rightarrow> node list" where
  "textNodes s = (if s = [] then [] else [Chars s])"

definition messageElement :: "Message \<Rightarrow> node" where
  "messageElement m =
     Element (elem nsClient ''message''
        [attr ''xmlns'' nsClient, attr ''from'' (Message_From m), attr ''id'' (Message_Id m),
         attr ''to'' (Message_To m), attr ''type'' (Message_Type m)])
       [Element (elem nsClient ''subject'' []) (textNodes (Subject m)),
        Element (elem nsClient ''body'' []) (textNodes (Body m)),
        Element (elem nsClient ''thread'' []) (textNodes (Thread m))]"

definition presenceElement :: "Presence \<Rightarrow> node" where
  "presenceElement p =
     Element (elem nsClient ''presence''
        [attr ''xmlns'' nsClient, attr ''from'' (Presence_From p), attr ''id'' (Presence_Id p),
         attr ''to'' (Presence_To p), attr ''type'' (Presence_Type p),
         attr ''lang'' (Presence_Lang p), attr ''show'' (Presence_Show p),
         attr ''status'' (Presence_Status p), attr ''priority'' (Presence_Priority p)])
       []"

text \<open>The names that the decoder records for the two stanzas.\<close>

definition messageName :: Name where
  "messageName = \<lparr>Space = nsClient, Local = ''message''\<rparr>"

definition presenceName :: Name where
  "presenceName = \<lparr>Space = nsClient, Local = ''presence''\<rparr>"

section \<open>Libraries for the examples\<close>

text \<open>
  A library given by a finite table of answers: the call with the listed
  target, start element and decoder state gets the listed answer, any other
  call fails.
\<close>

definition scripted ::
  "((iface \<times> StartElement option \<times> decoder) \<times> (error option \<times> iface \<times> decoder)) list
   \<Rightarrow> unmarshal" where
  "scripted script v start d =
     (case map_of script (v, start, d) of
        Some r \<Rightarrow> r
      | None \<Rightarrow> (Some (errorString ''no answer scripted''), v, d))"

text \<open>A library that decodes messages by the rules above and is asked for nothing else.\<close>

definition messageLib :: unmarshal where
  "messageLib v start d =
     (case (v, start) of
        (PMessage m, Some se) \<Rightarrow> unmarshalMessage m se d
      | _ \<Rightarrow> (Some (errorString ''not a message''), v, d))"

text \<open>A library that decodes messages and presences by the rules above.\<close>

definition stanzaLib :: unmarshal where
  "stanzaLib v start d =
     (case (v, start) of
        (PMessage m, Some se) \<Rightarrow> unmarshalMessage m se d
      | (PPresence p, Some se) \<Rightarrow> unmarshalPresence p se d
      | _ \<Rightarrow> (Some (errorString ''not a stanza''), v, d))"

text \<open>
  An encoder and a reader of markup given by finite tables: which markup is
  written for which value, and which tokens are read from which markup.
\<close>

definition scriptedEncoder :: "(iface \<times> string) list \<Rightarrow> marshal" where
  "scriptedEncoder script v =
     (case map_of script v of
        Some out \<Rightarrow> (None, out)
      | None \<Rightarrow> (Some (errorString ''no markup scripted''), []))"

definition scriptedReader :: "(string \<times> token list) list \<Rightarrow> string \<Rightarrow> token list" where
  "scriptedReader script out = (case map_of script out of Some ts \<Rightarrow> ts | None \<Rightarrow> [])"

section \<open>Sample inputs\<close>

text \<open>
  \<^verbatim>\<open><register xmlns='http://jabber.org/features/iq-register'/>\<close> and
  \<^verbatim>\<open><challenge xmlns='urn:ietf:params:xml:ns:xmpp-sasl'>\<close>.
\<close>

definition registerElement :: StartElement where
  "registerElement =
     \<lparr>seName = \<lparr>Space = ''http://jabber.org/features/iq-register'', Local = ''register''\<rparr>,
      seAttr = []\<rparr>"

definition challengeElement :: StartElement where
  "challengeElement =
     \<lparr>seName = \<lparr>Space = ''urn:ietf:params:xml:ns:xmpp-sasl'', Local = ''challenge''\<rparr>,
      seAttr = []\<rparr>"

text \<open>Features that advertise the mechanisms \<open>ms\<close>; a client that has yet to read \<open>ts\<close>.\<close>

definition advertised :: "string list \<Rightarrow> streamFeatures" where
  "advertised ms = zero_streamFeatures\<lparr>Mechanisms := zero_saslMechanisms\<lparr>Mechanism := ms\<rparr>\<rparr>"

definition rest :: "token list \<Rightarrow> decoder" where
  "rest ts = \<lparr>toks = ts, readErr = io_EOF\<rparr>"

definition freshClient :: "token list \<Rightarrow> Client" where
  "freshClient ts = \<lparr>sent = [], jid = [], dec = rest ts\<rparr>"

definition streamRoot :: StartElement where
  "streamRoot = elem ''http://etherx.jabber.org/streams'' ''stream'' []"

definition successElement :: StartElement where
  "successElement = elem ''urn:ietf:params:xml:ns:xmpp-sasl'' ''success'' []"

definition featuresElement :: StartElement where
  "featuresElement = elem ''http://etherx.jabber.org/streams'' ''features'' []"

definition otherElement :: StartElement where
  "otherElement = elem ''http://etherx.jabber.org/streams'' ''other'' []"

definition iqElement :: StartElement where
  "iqElement = elem ''jabber:client'' ''iq'' [attr ''type'' ''result'', attr ''id'' ''x'']"

text \<open>
  A handshake whose second features element is not one.  The server sends the
  stream element, the features, the SASL success, the stream element again,
  an element that is not \<^verbatim>\<open>features\<close>, and the answer to the bind request.
  \<open>handshakeLib\<close> is what the library makes of it: the second decoding fails
  on the name of the element, having read its start only.
\<close>

definition handshakeTail :: "token list" where
  "handshakeTail = [TStartElement iqElement, TEndElement (seName iqElement)]"

definition handshakeRestart :: "token list" where
  "handshakeRestart =
     [TStartElement streamRoot, TStartElement otherElement, TEndElement (seName otherElement)]
     @ handshakeTail"

definition handshakeAuth :: "token list" where
  "handshakeAuth =
     [TStartElement successElement, TEndElement (seName successElement)] @ handshakeRestart"

definition handshake :: "token list" where
  "handshake =
     [TStartElement streamRoot, TStartElement featuresElement,
      TEndElement (seName featuresElement)] @ handshakeAuth"

definition boundIQ :: clientIQ where
  "boundIQ = zero_clientIQ\<lparr>clientIQ_XMLName := seName iqElement, clientIQ_Id := ''x'',
     clientIQ_Type := ''result'', clientIQ_Bind := zero_bindBind\<lparr>Jid := ''user@domain/home''\<rparr>\<rparr>"

definition handshakeLib :: unmarshal where
  "handshakeLib = scripted
     [((PStreamFeatures zero_streamFeatures, None, rest (tl handshake)),
         (None, PStreamFeatures (advertised [''PLAIN'']), rest handshakeAuth)),
      ((PSaslSuccess \<lparr>saslSuccess_XMLName = zeroName\<rparr>, Some successElement,
          rest (tl handshakeAuth)),
         (None, PSaslSuccess \<lparr>saslSuccess_XMLName = seName successElement\<rparr>,
          rest handshakeRestart)),
      ((PStreamFeatures (advertised [''PLAIN'']), None, rest (tl handshakeRestart)),
         (Some (errorString ''expected element type <features> but have <other>''),
          PStreamFeatures (advertised [''PLAIN'']), rest (tl (tl handshakeRestart)))),
      ((PClientIQ zero_clientIQ, None, rest (tl (tl handshakeRestart))),
         (None, PClientIQ boundIQ, rest []))]"

text \<open>A stream whose first features element is not one.\<close>

definition broken :: "token list" where
  "broken =
     [TStartElement streamRoot, TStartElement otherElement, TEndElement (seName otherElement)]"

definition brokenLib :: unmarshal where
  "brokenLib = scripted
     [((PStreamFeatures zero_streamFeatures, None, rest (tl broken)),
         (Some (errorString ''expected element type <features> but have <other>''),
          PStreamFeatures zero_streamFeatures, rest (tl (tl broken))))]"

text \<open>Features that advertise X-OAUTH2 only.\<close>

definition oauthLib :: unmarshal where
  "oauthLib = scripted
     [((PStreamFeatures zero_streamFeatures, None, rest (tl handshake)),
         (None, PStreamFeatures (advertised [''X-OAUTH2'']), rest handshakeAuth))]"

text \<open>
  The answer \<^verbatim>\<open><iq type='result' id='x'/>\<close> to the bind request: a result
  with no bind child, so the library leaves \<^verbatim>\<open>Bind\<close> at its zero value.
\<close>

definition unboundIQ :: clientIQ where
  "unboundIQ = zero_clientIQ\<lparr>clientIQ_XMLName := seName iqElement, clientIQ_Id := ''x'',
     clientIQ_Type := ''result''\<rparr>"

definition unboundLib :: unmarshal where
  "unboundLib = scripted
     [((PClientIQ zero_clientIQ, None, rest handshakeTail), (None, PClientIQ unboundIQ, rest []))]"

text \<open>
  The message of \<^verbatim>\<open>TestStanzaError\<close> (xmpp_test.go, lines 59-71): type "error",
  a child in the namespace google:mobile:data and an \<^verbatim>\<open>error\<close> child with two
  children of its own.  Character data is as the decoder delivers it, entities
  resolved.
\<close>

definition stanzaStart :: StartElement where
  "stanzaStart = elem ''jabber:client'' ''message''
     [attr ''xmlns'' ''jabber:client'', attr ''id'' ''3'', attr ''type'' ''error'',
      attr ''to'' ''123456789@gcm.googleapis.com/ABC'']"

definition stanzaKids :: "node list" where
  "stanzaKids =
     [Chars [CHR 0x0A, CHR 0x09],
      Element (elem ''google:mobile:data'' ''gcm'' [attr ''xmlns'' ''google:mobile:data''])
        [Chars ([CHR 0x0A, CHR 0x09, CHR 0x09] @ ''{'' @ [CHR 0x22] @ ''random'' @ [CHR 0x22] @
           '': '' @ [CHR 0x22] @ ''<text>'' @ [CHR 0x22] @ ''}'' @ [CHR 0x0A, CHR 0x09])],
      Chars [CHR 0x0A, CHR 0x09],
      Element (elem ''jabber:client'' ''error'' [attr ''code'' ''400'', attr ''type'' ''modify''])
        [Chars [CHR 0x0A, CHR 0x09, CHR 0x09],
         Element (elem ''urn:ietf:params:xml:ns:xmpp-stanzas'' ''bad-request''
           [attr ''xmlns'' ''urn:ietf:params:xml:ns:xmpp-stanzas'']) [],
         Chars [CHR 0x0A, CHR 0x09, CHR 0x09],
         Element (elem ''urn:ietf:params:xml:ns:xmpp-stanzas'' ''text''
           [attr ''xmlns'' ''urn:ietf:params:xml:ns:xmpp-stanzas''])
           [Chars (''InvalidJson: JSON_PARSING_ERROR : Missing Required Field: message_id'' @
              [CHR 0x5C] @ ''n'')],
         Chars [CHR 0x0A, CHR 0x09]],
      Chars [CHR 0x0A]]"

definition stanzaMessage :: Message where
  "stanzaMessage =
     \<lparr>Message_XMLName = \<lparr>Space = ''jabber:client'', Local = ''message''\<rparr>,
      Message_From = [], Message_Id = ''3'', Message_To = ''123456789@gcm.googleapis.com/ABC'',
      Message_Type = ''error'', Subject = [], Body = [], Thread = []\<rparr>"

text \<open>
  A message built as \<^verbatim>\<open>Message{Body: "hi"}\<close> and a presence that already
  holds its element's name, with the markup encoding/xml writes for them.
\<close>

definition hi :: Message where
  "hi = zero_Message\<lparr>Body := ''hi''\<rparr>"

definition away :: Presence where
  "away = zero_Presence\<lparr>Presence_XMLName := presenceName, Presence_Show := ''away''\<rparr>"

definition dq :: string where "dq = [CHR 0x22]"

definition hiMarkup :: string where
  "hiMarkup = ''<message xmlns='' @ dq @ ''jabber:client'' @ dq @ '' from='' @ dq @ dq @
     '' id='' @ dq @ dq @ '' to='' @ dq @ dq @ '' type='' @ dq @ dq @
     ''><subject></subject><body>hi</body><thread></thread></message>''"

definition awayMarkup :: string where
  "awayMarkup = ''<presence xmlns='' @ dq @ ''jabber:client'' @ dq @ '' from='' @ dq @ dq @
     '' id='' @ dq @ dq @ '' to='' @ dq @ dq @ '' type='' @ dq @ dq @ '' lang='' @ dq @ dq @
     '' show='' @ dq @ ''away'' @ dq @ '' status='' @ dq @ dq @ '' priority='' @ dq @ dq @
     ''></presence>''"

definition sampleEncoder :: marshal where
  "sampleEncoder = scriptedEncoder [(PMessage hi, hiMarkup), (PPresence away, awayMarkup)]"

definition sampleReader :: "string \<Rightarrow> token list" where
  "sampleReader = scriptedReader
     [(hiMarkup, tokensOf (messageElement hi)), (awayMarkup, tokensOf (presenceElement away))]"

section \<open>Facts about the dispatcher\<close>

lemma Token_Nil: "toks p = [] \<Longrightarrow> Token p = (None, Some (readErr p), p)"
  by (simp add: Token_def)

lemma Token_Cons: "toks p = t # ts \<Longrightarrow> Token p = (Some t, None, p\<lparr>toks := ts\<rparr>)"
  by (simp add: Token_def)

lemma nextStart_Nil: "toks p = [] \<Longrightarrow> nextStart p = Exit (''token'' @ Error (readErr p))"
  by (subst nextStart.simps) (simp add: Token_Nil)

lemma nextStart_Start:
  "toks p = TStartElement se # ts \<Longrightarrow> nextStart p = Return (se, None, p\<lparr>toks := ts\<rparr>)"
  by (subst nextStart.simps) (simp add: Token_Cons)

lemma nextStart_skip:
  "toks p = t # ts \<Longrightarrow> (\<forall>se. t \<noteq> TStartElement se) \<Longrightarrow> nextStart p = nextStart (p\<lparr>toks := ts\<rparr>)"
  by (subst nextStart.simps) (cases t; simp add: Token_Cons)

lemma nextStart_no_error: "nextStart p = Return (se, err, p1) \<Longrightarrow> err = None"
proof (induction p rule: nextStart.induct)
  case (1 p)
  show ?case
  proof (cases "toks p")
    case Nil
    with 1 show ?thesis by (simp add: nextStart_Nil)
  next
    case (Cons t ts)
    show ?thesis
    proof (cases "\<exists>se'. t = TStartElement se'")
      case True
      with Cons 1 show ?thesis by (auto simp: nextStart_Start)
    next
      case False
      with Cons have "nextStart p = nextStart (p\<lparr>toks := ts\<rparr>)"
        by (simp add: nextStart_skip)
      moreover have "Token p = (Some t, None, p\<lparr>toks := ts\<rparr>)"
        using Cons by (simp add: Token_Cons)
      ultimately show ?thesis using 1 False by (cases t) auto
    qed
  qed
qed

text \<open>A key built with a blank determines both of its parts when the parts of the label hold no blank.\<close>

lemma key_split:
  assumes "c \<notin> set a" and "c \<notin> set b"
  shows "(s @ c # l = a @ c # b) = (s = a \<and> l = b)"
proof
  assume eq: "s @ c # l = a @ c # b"
  then obtain us where
    "(s = a @ us \<and> us @ c # l = c # b) \<or> (s @ us = a \<and> c # l = us @ c # b)"
    by (auto simp: append_eq_append_conv2)
  then show "s = a \<and> l = b"
  proof
    assume h: "s = a @ us \<and> us @ c # l = c # b"
    show ?thesis
    proof (cases us)
      case Nil
      with h show ?thesis by simp
    next
      case (Cons x xs)
      with h have "xs @ c # l = b" by simp
      then have "c \<in> set b" by auto
      with assms show ?thesis by simp
    qed
  next
    assume h: "s @ us = a \<and> c # l = us @ c # b"
    show ?thesis
    proof (cases us)
      case Nil
      with h show ?thesis by simp
    next
      case (Cons x xs)
      with h have "x = c" by simp
      with Cons h have "c \<in> set a" by auto
      with assms show ?thesis by simp
    qed
  qed
next
  assume "s = a \<and> l = b"
  then show "s @ c # l = a @ c # b" by simp
qed

lemma ns_no_blank:
  "CHR '' '' \<notin> set nsStream" "CHR '' '' \<notin> set nsTLS" "CHR '' '' \<notin> set nsSASL"
  "CHR '' '' \<notin> set nsBind" "CHR '' '' \<notin> set nsClient"
  by (simp_all add: nsStream_def nsTLS_def nsSASL_def nsBind_def nsClient_def)

lemma ns_distinct:
  "nsStream \<noteq> nsTLS" "nsStream \<noteq> nsSASL" "nsStream \<noteq> nsBind" "nsStream \<noteq> nsClient"
  "nsTLS \<noteq> nsSASL" "nsTLS \<noteq> nsBind" "nsTLS \<noteq> nsClient"
  "nsSASL \<noteq> nsBind" "nsSASL \<noteq> nsClient" "nsBind \<noteq> nsClient"
  by (simp_all add: nsStream_def nsTLS_def nsSASL_def nsBind_def nsClient_def)

lemma alloc_lookup: "alloc se = map_of dispatchTable (qname se)"
  unfolding alloc_def Let_def dispatchTable_def qname_def
  by (simp add: key_split ns_no_blank)

lemma table_keys_distinct: "distinct (map fst dispatchTable)"
  unfolding dispatchTable_def
  by (simp add: ns_distinct ns_distinct [symmetric])

lemma table_keys_no_blank:
  "k \<in> fst ` set dispatchTable \<Longrightarrow> CHR '' '' \<notin> set (fst k) \<and> CHR '' '' \<notin> set (snd k)"
  unfolding dispatchTable_def
  by (auto simp: ns_no_blank)

lemma next_unknown:
  assumes "nextStart p = Return (se, err, p1)" and "alloc se = None"
  shows "next U p = Return (zeroName, None,
           Some (errors_New (''unexpected XMPP message '' @
             Space (seName se) @ '' <'' @ Local (seName se) @ ''/>'')), p1)"
  using assms nextStart_no_error [OF assms(1)] by (simp add: next_def)

text \<open>
  Claim C5.  The switch of \<^verbatim>\<open>next\<close> compares one string, built from the
  namespace, a blank and the local name.  For the labels of this switch that
  comparison is the comparison of the two fields: what \<open>alloc\<close> selects for a
  start element is what the table keyed by the pair (namespace, local name)
  holds for the pair of the element, each pair occurs once in the table, and
  for every key of the table the concatenated strings are equal exactly when
  the namespaces are equal and the local names are equal.  This holds for every
  start element, also for one with a blank in a field.
\<close>

theorem dispatch_is_fieldwise:
  "alloc se = map_of dispatchTable (qname se)
   \<and> distinct (map fst dispatchTable)
   \<and> (\<forall>k \<in> fst ` set dispatchTable.
        (Space (seName se) @ '' '' @ Local (seName se) = fst k @ '' '' @ snd k)
        = (Space (seName se) = fst k \<and> Local (seName se) = snd k))"
proof (intro conjI ballI)
  fix k assume "k \<in> fst ` set dispatchTable"
  then have "CHR '' '' \<notin> set (fst k) \<and> CHR '' '' \<notin> set (snd k)"
    by (rule table_keys_no_blank)
  then show "(Space (seName se) @ '' '' @ Local (seName se) = fst k @ '' '' @ snd k)
        = (Space (seName se) = fst k \<and> Local (seName se) = snd k)"
    using key_split [of "CHR '' ''" "fst k" "snd k"] by simp
qed (rule alloc_lookup, rule table_keys_distinct)

theorem dispatch_is_fieldwise_witness:
  "alloc \<lparr>seName = \<lparr>Space = ''jabber:client'', Local = ''message''\<rparr>, seAttr = []\<rparr>
     = Some (PMessage zero_Message)
   \<and> alloc \<lparr>seName = \<lparr>Space = ''jabber:client message'', Local = []\<rparr>, seAttr = []\<rparr> = None
   \<and> alloc \<lparr>seName = \<lparr>Space = [], Local = ''jabber:client message''\<rparr>, seAttr = []\<rparr> = None
   \<and> (nsClient, ''message'') \<in> fst ` set dispatchTable
   \<and> (''jabber:client message'' @ '' '' @ [] \<noteq> nsClient @ '' '' @ ''message'')"
proof -
  have k: "(nsClient, ''message'') \<in> fst ` set dispatchTable"
    by (simp add: dispatchTable_def image_iff)
  have m: "map_of dispatchTable (nsClient, ''message'') = Some (PMessage zero_Message)"
    by (simp add: dispatchTable_def ns_distinct ns_distinct [symmetric])
  have n1: "map_of dispatchTable (''jabber:client message'', []) = None"
    by (simp add: dispatchTable_def)
  have n2: "map_of dispatchTable ([], ''jabber:client message'') = None"
    by (simp add: dispatchTable_def nsStream_def nsTLS_def nsSASL_def nsBind_def nsClient_def)
  show ?thesis
    using dispatch_is_fieldwise
        [of "\<lparr>seName = \<lparr>Space = ''jabber:client'', Local = ''message''\<rparr>, seAttr = []\<rparr>"]
      dispatch_is_fieldwise
        [of "\<lparr>seName = \<lparr>Space = ''jabber:client message'', Local = []\<rparr>, seAttr = []\<rparr>"]
      dispatch_is_fieldwise
        [of "\<lparr>seName = \<lparr>Space = [], Local = ''jabber:client message''\<rparr>, seAttr = []\<rparr>"]
      k m n1 n2
    by (simp add: qname_def nsClient_def)
qed

text \<open>
  Claim C6.  When the start element that \<^verbatim>\<open>next\<close> finds has a pair (namespace,
  local name) that is not a key of the dispatch table, \<^verbatim>\<open>next\<close> returns no
  value and the error "unexpected XMPP message NAMESPACE <LOCAL/>", which
  names that namespace and that local name; the element is not skipped.
\<close>

theorem unknown_name_fails:
  assumes "nextStart p = Return (se, err, p1)"
    and "qname se \<notin> fst ` set dispatchTable"
  shows "next U p = Return (zeroName, None,
           Some (errors_New (''unexpected XMPP message '' @
             Space (seName se) @ '' <'' @ Local (seName se) @ ''/>'')), p1)"
proof -
  have "map_of dispatchTable (qname se) = None"
    using assms(2) by (simp add: map_of_eq_None_iff)
  then have "alloc se = None" by (simp add: alloc_lookup)
  with assms(1) show ?thesis by (rule next_unknown)
qed

theorem unknown_name_fails_witness:
  "\<forall>U. next U \<lparr>toks = [TCharData ''  '', TStartElement registerElement], readErr = io_EOF\<rparr>
   = Return (zeroName, None,
       Some (errorString
         ''unexpected XMPP message http://jabber.org/features/iq-register <register/>''),
       \<lparr>toks = [], readErr = io_EOF\<rparr>)"
proof -
  let ?p = "\<lparr>toks = [TCharData ''  '', TStartElement registerElement], readErr = io_EOF\<rparr>"
  have a: "nextStart ?p = Return (registerElement, None, \<lparr>toks = [], readErr = io_EOF\<rparr>)"
    by (simp add: nextStart_skip nextStart_Start)
  have b: "qname registerElement \<notin> fst ` set dispatchTable"
    by (simp add: qname_def registerElement_def dispatchTable_def
        nsStream_def nsTLS_def nsSASL_def nsBind_def nsClient_def)
  show ?thesis
    using unknown_name_fails [OF a b]
    by (simp add: registerElement_def errors_New_def)
qed

text \<open>
  Claim C10.  For a start element named challenge or response in the SASL
  namespace the switch has a case, but the case stores a string and not a
  pointer, so \<^verbatim>\<open>DecodeElement\<close> refuses it: \<^verbatim>\<open>next\<close> returns the error
  "non-pointer passed to Unmarshal" and no value, whatever the library would
  decode.
\<close>

theorem sasl_challenge_response_fail:
  assumes "nextStart p = Return (se, err, p1)"
    and "qname se = (nsSASL, ''challenge'') \<or> qname se = (nsSASL, ''response'')"
  shows "next U p = Return (zeroName, None,
           Some (errors_New ''non-pointer passed to Unmarshal''), p1)"
proof -
  from assms(2) have "alloc se = Some (VString [])"
    by (auto simp: alloc_lookup dispatchTable_def ns_distinct ns_distinct [symmetric])
  then show ?thesis
    using assms(1) nextStart_no_error [OF assms(1)]
    by (simp add: next_def DecodeElement_def)
qed

theorem sasl_challenge_response_fail_witness:
  "\<forall>U. next U \<lparr>toks = [TStartElement challengeElement, TCharData ''cmVhbG09'',
              TEndElement (seName challengeElement)], readErr = io_EOF\<rparr>
   = Return (zeroName, None, Some (errorString ''non-pointer passed to Unmarshal''),
       \<lparr>toks = [TCharData ''cmVhbG09'', TEndElement (seName challengeElement)],
          readErr = io_EOF\<rparr>)"
proof -
  let ?p = "\<lparr>toks = [TStartElement challengeElement, TCharData ''cmVhbG09'',
              TEndElement (seName challengeElement)], readErr = io_EOF\<rparr>"
  have a: "nextStart ?p = Return (challengeElement, None,
      \<lparr>toks = [TCharData ''cmVhbG09'', TEndElement (seName challengeElement)],
         readErr = io_EOF\<rparr>)"
    by (simp add: nextStart_Start)
  have b: "qname challengeElement = (nsSASL, ''challenge'')
           \<or> qname challengeElement = (nsSASL, ''response'')"
    by (simp add: qname_def challengeElement_def nsSASL_def)
  show ?thesis
    using sasl_challenge_response_fail [OF a b]
    by (simp add: errors_New_def)
qed

text \<open>
  Claim C2.  What the code does when a read fails in the token loop: after any
  run of tokens that are not start elements (any list with its start elements
  taken out), a failing \<^verbatim>\<open>Token()\<close> makes \<^verbatim>\<open>nextStart\<close> end the process
  through \<^verbatim>\<open>log.Fatal\<close>, whatever the error is; no error value reaches the
  caller.
\<close>

theorem read_failure_exits:
  "nextStart \<lparr>toks = filter (\<lambda>t. \<not> isStartElement t) ts, readErr = e\<rparr>
   = Exit (''token'' @ Error e)"
proof (induction ts)
  case Nil
  show ?case by (simp add: nextStart_Nil)
next
  case (Cons t ts)
  show ?case
  proof (cases "isStartElement t")
    case True
    with Cons show ?thesis by simp
  next
    case False
    then have "\<forall>se. t \<noteq> TStartElement se" by auto
    with False Cons show ?thesis by (simp add: nextStart_skip)
  qed
qed

text \<open>
  Claim C4.  What the code does on a connection that is closed before any
  byte arrives: the first \<^verbatim>\<open>Token()\<close> of \<^verbatim>\<open>Recv\<close> reports \<^verbatim>\<open>io.EOF\<close>, and
  \<^verbatim>\<open>Recv\<close> does not return it: the process ends with the line "tokenEOF".
\<close>

theorem Recv_end_of_stream_exits:
  "Recv U \<lparr>sent = s, jid = j, dec = \<lparr>toks = [], readErr = io_EOF\<rparr>\<rparr> = Some (Exit ''tokenEOF'')"
  by (subst Recv.simps) (simp add: next_def nextStart_Nil)

section \<open>Facts about the negotiation\<close>

lemma havePlain_iff: "havePlain ms = (''PLAIN'' \<in> set ms)"
  by (induction ms) auto

lemma selectAuth_plain:
  "''PLAIN'' \<in> set (Mechanism (Mechanisms f)) \<Longrightarrow>
   selectAuth user passwd f c = (None, c\<lparr>sent := sent c @ [authPlain user passwd]\<rparr>)"
  by (simp add: selectAuth_def havePlain_iff Fprintf_def)

lemma selectAuth_none:
  "''PLAIN'' \<notin> set (Mechanism (Mechanisms f)) \<Longrightarrow>
   selectAuth user passwd f c =
     (Some (errors_New (''PLAIN authentication is not an option: '' @
        fmtV (Mechanism (Mechanisms f)))), c)"
  by (simp add: selectAuth_def havePlain_iff)

lemma init_open_ok:
  "nextStart (dec c) = Return (se, err, p) \<Longrightarrow>
   seName se = \<lparr>Space = nsStream, Local = ''stream''\<rparr> \<Longrightarrow>
   init_open domain c =
     Return (None, c\<lparr>sent := sent c @ [xmlDecl @ streamOpen domain], dec := p\<rparr>)"
  using nextStart_no_error [of "dec c" se err p]
  by (simp add: init_open_def Fprintf_def Let_def)

lemma init_restart_tolerant:
  "nextStart (dec c) = Return (se, err, p) \<Longrightarrow>
   seName se = \<lparr>Space = nsStream, Local = ''stream''\<rparr> \<Longrightarrow>
   DecodeElement U (PStreamFeatures f) None p = (r, v, p1) \<Longrightarrow>
   init_restart U domain f c =
     Return (None, c\<lparr>sent := sent c @ [streamOpen domain], dec := p1\<rparr>)"
  using nextStart_no_error [of "dec c" se err p]
  by (simp add: init_restart_def Fprintf_def Let_def)

lemma init_auth_decode_error:
  "DecodeElement U (PStreamFeatures zero_streamFeatures) None (dec c) = (Some e, v, p) \<Longrightarrow>
   init_auth U user passwd c =
     Return (Some (errors_New (''unmarshal <features>: '' @ Error e)),
       the_streamFeatures v, c\<lparr>dec := p\<rparr>)"
  by (simp add: init_auth_def)

lemma init_bind_writes:
  "\<exists>r c'. init_bind U c = Return (r, c')
     \<and> take (Suc (length (sent c))) (sent c') = sent c @ [bindRequest]"
  by (auto simp: init_bind_def Fprintf_def Let_def addrIsNil_def split: prod.splits option.splits)

lemma init_unfold:
  "SplitN2 user (CHR ''@'') = [u, domain] \<Longrightarrow> init_open domain c = Return (None, c1) \<Longrightarrow>
   init U c user passwd =
     (case init_auth U u passwd c1 of
        Exit line \<Rightarrow> Exit line
      | Return (Some e, f, c2) \<Rightarrow> Return (Some e, c2)
      | Return (None, f, c2) \<Rightarrow>
          (case init_restart U domain f c2 of
             Exit line \<Rightarrow> Exit line
           | Return (Some e, c3) \<Rightarrow> Return (Some e, c3)
           | Return (None, c3) \<Rightarrow> init_bind U c3))"
  by (simp add: init_def Let_def)

lemma split_user: "SplitN2 ''user@domain'' (CHR ''@'') = [''user'', ''domain'']"
  by (simp add: SplitN2_def)

lemma stream_root_name: "seName streamRoot = \<lparr>Space = nsStream, Local = ''stream''\<rparr>"
  by (simp add: streamRoot_def elem_def nsStream_def)

lemma open_sample:
  "init_open ''domain'' (freshClient (TStartElement streamRoot # ts)) =
     Return (None, \<lparr>sent = [xmlDecl @ streamOpen ''domain''], jid = [], dec = rest ts\<rparr>)"
proof -
  have "nextStart (dec (freshClient (TStartElement streamRoot # ts))) =
      Return (streamRoot, None, rest ts)"
    by (simp add: freshClient_def rest_def nextStart_Start)
  from init_open_ok [OF this stream_root_name, of "''domain''"]
  show ?thesis by (simp add: freshClient_def)
qed

lemma handshake_auth:
  "init_auth handshakeLib ''user'' ''secret''
     \<lparr>sent = [xmlDecl @ streamOpen ''domain''], jid = [], dec = rest (tl handshake)\<rparr> =
   Return (None, advertised [''PLAIN''],
     \<lparr>sent = [xmlDecl @ streamOpen ''domain'', authPlain ''user'' ''secret''],
      jid = [], dec = rest handshakeRestart\<rparr>)"
proof -
  have d: "DecodeElement handshakeLib (PStreamFeatures zero_streamFeatures) None
      (rest (tl handshake)) = (None, PStreamFeatures (advertised [''PLAIN'']), rest handshakeAuth)"
    by (simp add: DecodeElement_def handshakeLib_def scripted_def)
  have s: "selectAuth ''user'' ''secret'' (advertised [''PLAIN'']) c =
      (None, c\<lparr>sent := sent c @ [authPlain ''user'' ''secret'']\<rparr>)" for c
    by (rule selectAuth_plain) (simp add: advertised_def)
  have a: "alloc successElement = Some (PSaslSuccess \<lparr>saslSuccess_XMLName = zeroName\<rparr>)"
    by (simp add: alloc_lookup qname_def successElement_def elem_def dispatchTable_def
        nsStream_def nsTLS_def nsSASL_def nsBind_def nsClient_def)
  have n: "next handshakeLib (rest handshakeAuth) =
      Return (seName successElement,
        Some (PSaslSuccess \<lparr>saslSuccess_XMLName = seName successElement\<rparr>),
        None, rest handshakeRestart)"
    by (simp add: next_def handshakeAuth_def rest_def nextStart_Start a DecodeElement_def
        handshakeLib_def scripted_def handshakeRestart_def handshakeTail_def handshake_def)
  show ?thesis
    by (simp add: init_auth_def d s n)
qed

text \<open>
  Claim C1, as the code has it.  The choice of the mechanism depends on the
  advertised list alone; there is no policy that prefers EXTERNAL, and EXTERNAL
  is never selected.  When PLAIN is advertised, with or without EXTERNAL, the
  client writes exactly the auth element of PLAIN.  When PLAIN is not
  advertised (only X-OAUTH2, say) the choice fails with the error "PLAIN
  authentication is not an option: [...]", nothing is written, and this part
  of \<^verbatim>\<open>init\<close> returns that error with the connection as it was.
\<close>

theorem mechanism_choice:
  "(''PLAIN'' \<in> set (Mechanism (Mechanisms f)) \<longrightarrow>
      selectAuth user passwd f c = (None, c\<lparr>sent := sent c @ [authPlain user passwd]\<rparr>))
   \<and> (''PLAIN'' \<notin> set (Mechanism (Mechanisms f)) \<longrightarrow>
      selectAuth user passwd f c =
        (Some (errors_New (''PLAIN authentication is not an option: '' @
           fmtV (Mechanism (Mechanisms f)))), c)
      \<and> (\<forall>U p. DecodeElement U (PStreamFeatures zero_streamFeatures) None (dec c) =
                  (None, PStreamFeatures f, p)
           \<longrightarrow> init_auth U user passwd c =
             Return (Some (errors_New (''PLAIN authentication is not an option: '' @
               fmtV (Mechanism (Mechanisms f)))), f, c\<lparr>dec := p\<rparr>)))"
  by (auto simp: selectAuth_plain selectAuth_none init_auth_def)

theorem mechanism_choice_witness:
  "selectAuth ''user'' ''invalid'' (advertised [''PLAIN'', ''X-OAUTH2'']) (freshClient []) =
     (None, (freshClient [])\<lparr>sent := [authPlain ''user'' ''invalid'']\<rparr>)
   \<and> selectAuth ''user'' ''invalid'' (advertised [''X-OAUTH2'']) (freshClient []) =
     (Some (errorString ''PLAIN authentication is not an option: [X-OAUTH2]''), freshClient [])
   \<and> init_auth oauthLib ''user'' ''invalid''
       \<lparr>sent = [xmlDecl @ streamOpen ''domain''], jid = [], dec = rest (tl handshake)\<rparr> =
     Return (Some (errorString ''PLAIN authentication is not an option: [X-OAUTH2]''),
       advertised [''X-OAUTH2''],
       \<lparr>sent = [xmlDecl @ streamOpen ''domain''], jid = [], dec = rest handshakeAuth\<rparr>)"
proof -
  have d: "DecodeElement oauthLib (PStreamFeatures zero_streamFeatures) None
      (dec \<lparr>sent = [xmlDecl @ streamOpen ''domain''], jid = [], dec = rest (tl handshake)\<rparr>) =
      (None, PStreamFeatures (advertised [''X-OAUTH2'']), rest handshakeAuth)"
    by (simp add: DecodeElement_def oauthLib_def scripted_def)
  have m: "Mechanism (Mechanisms (advertised ms)) = ms" for ms
    by (simp add: advertised_def)
  show ?thesis
    using mechanism_choice [of "advertised [''PLAIN'', ''X-OAUTH2'']" "''user''" "''invalid''"
        "freshClient []"]
      mechanism_choice [of "advertised [''X-OAUTH2'']" "''user''" "''invalid''" "freshClient []"]
      mechanism_choice [of "advertised [''X-OAUTH2'']" "''user''" "''invalid''"
        "\<lparr>sent = [xmlDecl @ streamOpen ''domain''], jid = [], dec = rest (tl handshake)\<rparr>"]
      d
    by (simp add: m fmtV_def errors_New_def freshClient_def)
qed

text \<open>
  Against claim C1 as stated: the server of \<^verbatim>\<open>TestMechanism\<close> advertises
  EXTERNAL, PLAIN and X-OAUTH2, the user is "user" and the password "invalid".
  Whatever the caller prefers, the element written is the auth element of
  PLAIN, not of EXTERNAL.
\<close>

theorem external_not_selected:
  "selectAuth ''user'' ''invalid'' (advertised [''EXTERNAL'', ''PLAIN'', ''X-OAUTH2''])
     (freshClient [])
   = (None, (freshClient [])\<lparr>sent :=
       [''<auth xmlns='urn:ietf:params:xml:ns:xmpp-sasl' mechanism='PLAIN'>'' @
        ''AHVzZXIAaW52YWxpZA==</auth>'' @ [CHR 0x0A]]\<rparr>)"
  by (simp add: selectAuth_def advertised_def zero_streamFeatures_def zero_saslMechanisms_def
      Fprintf_def freshClient_def authPlain_def nsSASL_def b64_def)

text \<open>
  Claim C7.  Once the stream is open, a failure to decode the first features
  element ends \<^verbatim>\<open>init\<close> with the error "unmarshal <features>: ..." and nothing
  more is written.  After a successful authentication and the second stream
  element, a failure to decode the second features element changes nothing:
  \<^verbatim>\<open>init\<close> goes on to the bind step from the state the decoder was left in,
  writes the bind request, and returns what the bind step returns.
\<close>

theorem features_decode_failures:
  assumes user: "SplitN2 user (CHR ''@'') = [u, domain]"
    and opened: "init_open domain c = Return (None, c1)"
  shows "(DecodeElement U (PStreamFeatures zero_streamFeatures) None (dec c1) = (Some e, v, p) \<longrightarrow>
            init U c user passwd =
              Return (Some (errors_New (''unmarshal <features>: '' @ Error e)), c1\<lparr>dec := p\<rparr>))
       \<and> (init_auth U u passwd c1 = Return (None, f, c2)
          \<and> nextStart (dec c2) = Return (se, err, p3)
          \<and> seName se = \<lparr>Space = nsStream, Local = ''stream''\<rparr>
          \<and> DecodeElement U (PStreamFeatures f) None p3 = (Some e', v', p4) \<longrightarrow>
            init U c user passwd =
              init_bind U (c2\<lparr>sent := sent c2 @ [streamOpen domain], dec := p4\<rparr>)
            \<and> (\<exists>r c'. init U c user passwd = Return (r, c')
                  \<and> take (length (sent c2) + 2) (sent c') =
                      sent c2 @ [streamOpen domain, bindRequest]))"
proof (intro conjI impI)
  assume "DecodeElement U (PStreamFeatures zero_streamFeatures) None (dec c1) = (Some e, v, p)"
  then have "init_auth U u passwd c1 =
      Return (Some (errors_New (''unmarshal <features>: '' @ Error e)),
        the_streamFeatures v, c1\<lparr>dec := p\<rparr>)"
    by (rule init_auth_decode_error)
  then show "init U c user passwd =
      Return (Some (errors_New (''unmarshal <features>: '' @ Error e)), c1\<lparr>dec := p\<rparr>)"
    by (simp add: init_unfold [OF user opened])
next
  assume h: "init_auth U u passwd c1 = Return (None, f, c2)
          \<and> nextStart (dec c2) = Return (se, err, p3)
          \<and> seName se = \<lparr>Space = nsStream, Local = ''stream''\<rparr>
          \<and> DecodeElement U (PStreamFeatures f) None p3 = (Some e', v', p4)"
  let ?c3 = "c2\<lparr>sent := sent c2 @ [streamOpen domain], dec := p4\<rparr>"
  from h have "init_restart U domain f c2 = Return (None, ?c3)"
    by (auto intro: init_restart_tolerant)
  with h have eq: "init U c user passwd = init_bind U ?c3"
    by (simp add: init_unfold [OF user opened])
  then show "init U c user passwd = init_bind U ?c3" .
  from init_bind_writes [of U ?c3] obtain r c' where
    "init_bind U ?c3 = Return (r, c')"
    and "take (Suc (length (sent ?c3))) (sent c') = sent ?c3 @ [bindRequest]"
    by blast
  with eq show "\<exists>r c'. init U c user passwd = Return (r, c')
      \<and> take (length (sent c2) + 2) (sent c') = sent c2 @ [streamOpen domain, bindRequest]"
    by auto
qed

theorem features_decode_failures_witness:
  "init brokenLib (freshClient broken) ''user@domain'' ''secret'' =
     Return (Some (errorString
         ''unmarshal <features>: expected element type <features> but have <other>''),
       \<lparr>sent = [xmlDecl @ streamOpen ''domain''], jid = [],
          dec = rest [TEndElement (seName otherElement)]\<rparr>)
   \<and> init handshakeLib (freshClient handshake) ''user@domain'' ''secret'' =
     Return (None,
       \<lparr>sent = [xmlDecl @ streamOpen ''domain'', authPlain ''user'' ''secret'',
                 streamOpen ''domain'', bindRequest, initialPresence],
          jid = ''user@domain/home'', dec = rest []\<rparr>)"
proof
  have o: "init_open ''domain'' (freshClient broken) =
      Return (None,
        \<lparr>sent = [xmlDecl @ streamOpen ''domain''], jid = [], dec = rest (tl broken)\<rparr>)"
    using open_sample [of "tl broken"] by (simp add: broken_def)
  have d: "DecodeElement brokenLib (PStreamFeatures zero_streamFeatures) None (rest (tl broken)) =
     (Some (errorString ''expected element type <features> but have <other>''),
      PStreamFeatures zero_streamFeatures, rest (tl (tl broken)))"
    by (simp add: DecodeElement_def brokenLib_def scripted_def)
  from features_decode_failures [OF split_user o, of brokenLib _ _ _ "''secret''"] d
  show "init brokenLib (freshClient broken) ''user@domain'' ''secret'' =
     Return (Some (errorString
         ''unmarshal <features>: expected element type <features> but have <other>''),
       \<lparr>sent = [xmlDecl @ streamOpen ''domain''], jid = [],
          dec = rest [TEndElement (seName otherElement)]\<rparr>)"
    by (simp add: errors_New_def broken_def)
next
  let ?c2 = "\<lparr>sent = [xmlDecl @ streamOpen ''domain'', authPlain ''user'' ''secret''],
     jid = [], dec = rest handshakeRestart\<rparr>"
  have o: "init_open ''domain'' (freshClient handshake) =
      Return (None,
        \<lparr>sent = [xmlDecl @ streamOpen ''domain''], jid = [], dec = rest (tl handshake)\<rparr>)"
    using open_sample [of "tl handshake"] by (simp add: handshake_def)
  have r: "nextStart (dec ?c2) = Return (streamRoot, None, rest (tl handshakeRestart))"
    by (simp add: handshakeRestart_def rest_def nextStart_Start)
  have d: "DecodeElement handshakeLib (PStreamFeatures (advertised [''PLAIN''])) None
      (rest (tl handshakeRestart)) =
      (Some (errorString ''expected element type <features> but have <other>''),
       PStreamFeatures (advertised [''PLAIN'']), rest (tl (tl handshakeRestart)))"
    by (simp add: DecodeElement_def handshakeLib_def scripted_def handshake_def
        handshakeAuth_def handshakeRestart_def handshakeTail_def rest_def advertised_def
        zero_streamFeatures_def zero_saslMechanisms_def)
  have q: "DecodeElement handshakeLib (PClientIQ zero_clientIQ) None
      (rest (tl (tl handshakeRestart))) = (None, PClientIQ boundIQ, rest [])"
    by (simp add: DecodeElement_def handshakeLib_def scripted_def)
  have b: "init_bind handshakeLib
      \<lparr>sent = [xmlDecl @ streamOpen ''domain'', authPlain ''user'' ''secret'',
                streamOpen ''domain''],
        jid = [], dec = rest (tl (tl handshakeRestart))\<rparr> =
     Return (None,
       \<lparr>sent = [xmlDecl @ streamOpen ''domain'', authPlain ''user'' ''secret'',
                 streamOpen ''domain'', bindRequest, initialPresence],
          jid = ''user@domain/home'', dec = rest []\<rparr>)"
    by (simp add: init_bind_def Fprintf_def Let_def q addrIsNil_def boundIQ_def)
  from features_decode_failures [OF split_user o, of handshakeLib _ _ _ "''secret''"
      "advertised [''PLAIN'']" ?c2 streamRoot None "rest (tl handshakeRestart)"
      "errorString ''expected element type <features> but have <other>''"
      "PStreamFeatures (advertised [''PLAIN''])" "rest (tl (tl handshakeRestart))"]
    handshake_auth r stream_root_name d b
  show "init handshakeLib (freshClient handshake) ''user@domain'' ''secret'' =
     Return (None,
       \<lparr>sent = [xmlDecl @ streamOpen ''domain'', authPlain ''user'' ''secret'',
                 streamOpen ''domain'', bindRequest, initialPresence],
          jid = ''user@domain/home'', dec = rest []\<rparr>)"
    by simp
qed

text \<open>
  Claim C8.  What the code does at the bind step: the test of line 223 never
  holds, so the error "<iq> result missing <bind>" is never returned; and for
  the answer \<^verbatim>\<open><iq type='result' id='x'/>\<close>, which carries no bind outcome,
  the step succeeds, leaves the bound identifier empty and announces presence.
\<close>

theorem bind_absent_accepted:
  "init_bind U c \<noteq> Return (Some (errors_New ''<iq> result missing <bind>''), c')
   \<and> init_bind unboundLib (freshClient handshakeTail) =
       Return (None,
         \<lparr>sent = [bindRequest, initialPresence], jid = [], dec = rest []\<rparr>)"
proof
  show "init_bind U c \<noteq> Return (Some (errors_New ''<iq> result missing <bind>''), c')"
    by (auto simp: init_bind_def Let_def addrIsNil_def errors_New_def
        split: prod.splits option.splits)
  have q: "DecodeElement unboundLib (PClientIQ zero_clientIQ) None (rest handshakeTail) =
      (None, PClientIQ unboundIQ, rest [])"
    by (simp add: DecodeElement_def unboundLib_def scripted_def)
  have j: "Jid (clientIQ_Bind unboundIQ) = []"
    by (simp add: unboundIQ_def zero_clientIQ_def zero_bindBind_def)
  show "init_bind unboundLib (freshClient handshakeTail) =
       Return (None,
         \<lparr>sent = [bindRequest, initialPresence], jid = [], dec = rest []\<rparr>)"
    by (simp add: init_bind_def Fprintf_def Let_def freshClient_def q addrIsNil_def j)
qed

section \<open>Facts about receiving a message\<close>

lemma skipToks_concat:
  assumes "\<And>x n ts. x \<in> set xs \<Longrightarrow> skipToks n (tokensOf x @ ts) = skipToks n ts"
  shows "skipToks n (concat (map tokensOf xs) @ ts) = skipToks n ts"
  using assms by (induction xs) simp_all

lemma skipToks_node: "skipToks n (tokensOf x @ ts) = skipToks n ts"
proof (induction x arbitrary: n ts)
  case (Element se xs)
  have "skipToks (Suc n) (concat (map tokensOf xs) @ TEndElement (seName se) # ts)
        = skipToks (Suc n) (TEndElement (seName se) # ts)"
    by (rule skipToks_concat) (rule Element.IH)
  then show ?case by simp
next
  case (Chars s)
  show ?case by simp
qed

lemma skipToks_nodes: "skipToks n (concat (map tokensOf xs) @ ts) = skipToks n ts"
  by (rule skipToks_concat) (rule skipToks_node)

lemma messageBody_node: "unmodelled x \<Longrightarrow> messageBody m (tokensOf x @ ts) = messageBody m ts"
proof (cases x)
  case (Element se xs)
  assume "unmodelled x"
  with Element have "Local (seName se) \<noteq> ''subject''" "Local (seName se) \<noteq> ''body''"
    "Local (seName se) \<noteq> ''thread''" by auto
  moreover have "skipToks 0 (concat (map tokensOf xs) @ TEndElement (seName se) # ts) = Some ts"
    by (simp add: skipToks_nodes)
  ultimately show ?thesis using Element by simp
next
  case (Chars s)
  then show ?thesis by simp
qed

lemma messageBody_nodes:
  "\<forall>x \<in> set xs. unmodelled x \<Longrightarrow>
   messageBody m (concat (map tokensOf xs) @ TEndElement nm # ts) = Some (m, ts)"
  by (induction xs) (simp_all add: messageBody_node)

lemma messageAttr_simps:
  "Message_Type (messageAttr m a) =
     (if Local (attrName a) = ''type'' then attrValue a else Message_Type m)"
  "Subject (messageAttr m a) = Subject m"
  "Body (messageAttr m a) = Body m"
  "Thread (messageAttr m a) = Thread m"
  "Message_XMLName (messageAttr m a) = Message_XMLName m"
  by (simp_all add: messageAttr_def Let_def)

lemma foldl_messageAttr_keeps:
  "Subject (foldl messageAttr m as) = Subject m"
  "Body (foldl messageAttr m as) = Body m"
  "Thread (foldl messageAttr m as) = Thread m"
  "Message_XMLName (foldl messageAttr m as) = Message_XMLName m"
  by (induction as arbitrary: m) (simp_all add: messageAttr_simps)

lemma foldl_messageAttr_type:
  "\<forall>a \<in> set as. Local (attrName a) \<noteq> ''type'' \<Longrightarrow>
   Message_Type (foldl messageAttr m as) = Message_Type m"
  by (induction as arbitrary: m) (simp_all add: messageAttr_simps)

lemma type_error_attr:
  assumes "Local (attrName a) = ''type''" and "attrValue a = ''error''"
    and "\<forall>b \<in> set as2. Local (attrName b) \<noteq> ''type''"
  shows "Message_Type (foldl messageAttr m (as1 @ a # as2)) = ''error''"
  using assms by (simp add: foldl_messageAttr_type messageAttr_simps)

lemma alloc_message:
  "seName se = \<lparr>Space = nsClient, Local = ''message''\<rparr> \<Longrightarrow>
   alloc se = Some (PMessage zero_Message)"
  by (simp add: alloc_lookup qname_def dispatchTable_def ns_distinct ns_distinct [symmetric])

lemma Recv_message:
  assumes U: "decodesMessages U"
    and name: "seName se = \<lparr>Space = nsClient, Local = ''message''\<rparr>"
    and kids: "\<forall>x \<in> set kids. unmodelled x"
    and input: "toks (dec c) = tokensOf (Element se kids) @ ts"
  shows "Recv U c = Some (Return (Some (PMessage (decodedMessage se)), None,
           c\<lparr>dec := (dec c)\<lparr>toks := ts\<rparr>\<rparr>))"
proof -
  let ?body = "concat (map tokensOf kids) @ TEndElement (seName se) # ts"
  have s: "nextStart (dec c) = Return (se, None, (dec c)\<lparr>toks := ?body\<rparr>)"
    using input by (simp add: nextStart_Start)
  have b: "messageBody (decodedMessage se) ?body = Some (decodedMessage se, ts)"
    using kids by (rule messageBody_nodes)
  have u: "U (PMessage zero_Message) (Some se) ((dec c)\<lparr>toks := ?body\<rparr>) =
      (None, PMessage (decodedMessage se), (dec c)\<lparr>toks := ts\<rparr>)"
    using U name b
    by (simp add: decodesMessages_def unmarshalMessage_def decodedMessage_def Let_def)
  have n: "next U (dec c) =
      Return (seName se, Some (PMessage (decodedMessage se)), None, (dec c)\<lparr>toks := ts\<rparr>)"
    by (simp add: next_def s alloc_message [OF name] DecodeElement_def u)
  show ?thesis
    by (subst Recv.simps) (simp add: n)
qed

lemma decodesMessages_messageLib: "decodesMessages messageLib"
  by (simp add: decodesMessages_def messageLib_def)

lemma stanzaStart_name: "seName stanzaStart = \<lparr>Space = nsClient, Local = ''message''\<rparr>"
  by (simp add: stanzaStart_def elem_def nsClient_def)

lemma stanzaKids_unmodelled: "\<forall>x \<in> set stanzaKids. unmodelled x"
  by (simp add: stanzaKids_def elem_def)

lemma decoded_stanza: "decodedMessage stanzaStart = stanzaMessage"
  by (simp add: decodedMessage_def stanzaStart_def elem_def attr_def messageAttr_def
      zero_Message_def stanzaMessage_def)

text \<open>
  Claim C3, as the code has it.  Let the library decode messages by the rules
  of encoding/xml, and let a message element arrive whose \<^verbatim>\<open>type\<close> attribute is
  "error" and whose children are unmodelled (none is named subject, body or
  thread), however many and however nested.  Then \<^verbatim>\<open>Recv\<close> returns a
  \<^verbatim>\<open>Message\<close> whose \<^verbatim>\<open>Type\<close> is "error".  The value is made of the element's
  name and attributes only: the children are skipped, \<^verbatim>\<open>Subject\<close>, \<^verbatim>\<open>Body\<close>
  and \<^verbatim>\<open>Thread\<close> stay empty, and the same value is returned for the same
  element without children.
\<close>

theorem error_message_received:
  assumes "decodesMessages U"
    and "seName se = \<lparr>Space = nsClient, Local = ''message''\<rparr>"
    and "seAttr se = as1 @ a # as2"
    and "Local (attrName a) = ''type''" and "attrValue a = ''error''"
    and "\<forall>b \<in> set as2. Local (attrName b) \<noteq> ''type''"
    and "\<forall>x \<in> set kids. unmodelled x"
    and "toks (dec c) = tokensOf (Element se kids) @ ts"
    and "toks (dec c') = tokensOf (Element se []) @ ts'"
  shows "Recv U c = Some (Return (Some (PMessage (decodedMessage se)), None,
                       c\<lparr>dec := (dec c)\<lparr>toks := ts\<rparr>\<rparr>))
       \<and> Message_Type (decodedMessage se) = ''error''
       \<and> Subject (decodedMessage se) = [] \<and> Body (decodedMessage se) = []
       \<and> Thread (decodedMessage se) = []
       \<and> Recv U c' = Some (Return (Some (PMessage (decodedMessage se)), None,
                       c'\<lparr>dec := (dec c')\<lparr>toks := ts'\<rparr>\<rparr>))"
proof (intro conjI)
  show "Recv U c = Some (Return (Some (PMessage (decodedMessage se)), None,
                       c\<lparr>dec := (dec c)\<lparr>toks := ts\<rparr>\<rparr>))"
    using assms(1,2,7,8) by (rule Recv_message)
  show "Recv U c' = Some (Return (Some (PMessage (decodedMessage se)), None,
                       c'\<lparr>dec := (dec c')\<lparr>toks := ts'\<rparr>\<rparr>))"
    using assms(1,2) _ assms(9) by (rule Recv_message) simp
  show "Message_Type (decodedMessage se) = ''error''"
    unfolding decodedMessage_def assms(3) using assms(4,5,6) by (rule type_error_attr)
qed (simp_all add: decodedMessage_def foldl_messageAttr_keeps zero_Message_def)

theorem error_message_received_witness:
  "Recv messageLib (freshClient (tokensOf (Element stanzaStart stanzaKids) @ [TCharData '' '']))
     = Some (Return (Some (PMessage stanzaMessage), None, freshClient [TCharData '' '']))
   \<and> Message_Type stanzaMessage = ''error''"
proof -
  have a: "seAttr stanzaStart = [attr ''xmlns'' ''jabber:client'', attr ''id'' ''3''] @
      attr ''type'' ''error'' # [attr ''to'' ''123456789@gcm.googleapis.com/ABC'']"
    by (simp add: stanzaStart_def elem_def)
  have b: "\<forall>b \<in> set [attr ''to'' ''123456789@gcm.googleapis.com/ABC''].
      Local (attrName b) \<noteq> ''type''"
    by (simp add: attr_def)
  from error_message_received [OF decodesMessages_messageLib stanzaStart_name a _ _ b
      stanzaKids_unmodelled,
      of "freshClient (tokensOf (Element stanzaStart stanzaKids) @ [TCharData '' ''])"
      "[TCharData '' '']"
      "freshClient (tokensOf (Element stanzaStart []))" "[]"]
  show ?thesis by (simp add: decoded_stanza attr_def freshClient_def rest_def)
qed

text \<open>
  Against claim C3 as stated: the message of \<^verbatim>\<open>TestStanzaError\<close>, with its
  two unmodelled children, and the same message with no child at all are
  received as the same value, which holds the attributes and nothing of the
  children.
\<close>

theorem children_not_captured:
  "Recv messageLib (freshClient (tokensOf (Element stanzaStart stanzaKids)))
     = Some (Return (Some (PMessage stanzaMessage), None, freshClient []))
   \<and> Recv messageLib (freshClient (tokensOf (Element stanzaStart [])))
     = Some (Return (Some (PMessage stanzaMessage), None, freshClient []))
   \<and> stanzaKids \<noteq> []"
proof (intro conjI)
  show "Recv messageLib (freshClient (tokensOf (Element stanzaStart stanzaKids)))
     = Some (Return (Some (PMessage stanzaMessage), None, freshClient []))"
    using Recv_message [OF decodesMessages_messageLib stanzaStart_name stanzaKids_unmodelled,
        of "freshClient (tokensOf (Element stanzaStart stanzaKids))" "[]"]
    by (simp add: decoded_stanza freshClient_def rest_def)
  show "Recv messageLib (freshClient (tokensOf (Element stanzaStart [])))
     = Some (Return (Some (PMessage stanzaMessage), None, freshClient []))"
    using Recv_message [OF decodesMessages_messageLib stanzaStart_name,
        of "[]" "freshClient (tokensOf (Element stanzaStart []))" "[]"]
    by (simp add: decoded_stanza freshClient_def rest_def)
  show "stanzaKids \<noteq> []" by (simp add: stanzaKids_def)
qed

section \<open>Facts about sending and receiving\<close>

lemma charData_text:
  "charData acc (concat (map tokensOf (textNodes s)) @ TEndElement nm # ts) = Some (acc @ s, ts)"
  by (simp add: textNodes_def)

lemma Recv_message_body:
  assumes U: "decodesMessages U"
    and name: "seName se = \<lparr>Space = nsClient, Local = ''message''\<rparr>"
    and input: "toks (dec c) = TStartElement se # body"
    and body: "messageBody (decodedMessage se) body = Some (m, ts)"
  shows "Recv U c = Some (Return (Some (PMessage m), None, c\<lparr>dec := (dec c)\<lparr>toks := ts\<rparr>\<rparr>))"
proof -
  have s: "nextStart (dec c) = Return (se, None, (dec c)\<lparr>toks := body\<rparr>)"
    using input by (simp add: nextStart_Start)
  have u: "U (PMessage zero_Message) (Some se) ((dec c)\<lparr>toks := body\<rparr>) =
      (None, PMessage m, (dec c)\<lparr>toks := ts\<rparr>)"
    using U name body
    by (simp add: decodesMessages_def unmarshalMessage_def decodedMessage_def Let_def)
  have n: "next U (dec c) = Return (seName se, Some (PMessage m), None, (dec c)\<lparr>toks := ts\<rparr>)"
    by (simp add: next_def s alloc_message [OF name] DecodeElement_def u)
  show ?thesis
    by (subst Recv.simps) (simp add: n)
qed

lemma message_roundtrip_body:
  "messageBody m0
     (concat (map tokensOf
        [Element (elem nsClient ''subject'' []) (textNodes s),
         Element (elem nsClient ''body'' []) (textNodes b),
         Element (elem nsClient ''thread'' []) (textNodes t)]) @ TEndElement nm # ts)
   = Some (m0\<lparr>Subject := s, Body := b, Thread := t\<rparr>, ts)"
  by (simp add: elem_def charData_text)


lemma alloc_presence:
  "seName se = \<lparr>Space = nsClient, Local = ''presence''\<rparr> \<Longrightarrow>
   alloc se = Some (PPresence zero_Presence)"
  by (simp add: alloc_lookup qname_def dispatchTable_def ns_distinct ns_distinct [symmetric])

lemma message_decoded:
  "messageBody
     (decodedMessage (elem nsClient ''message''
        [attr ''xmlns'' nsClient, attr ''from'' (Message_From m), attr ''id'' (Message_Id m),
         attr ''to'' (Message_To m), attr ''type'' (Message_Type m)]))
     (concat (map tokensOf
        [Element (elem nsClient ''subject'' []) (textNodes (Subject m)),
         Element (elem nsClient ''body'' []) (textNodes (Body m)),
         Element (elem nsClient ''thread'' []) (textNodes (Thread m))]) @ TEndElement nm # ts)
   = Some (m\<lparr>Message_XMLName := messageName\<rparr>, ts)"
proof -
  have a: "decodedMessage (elem nsClient ''message''
        [attr ''xmlns'' nsClient, attr ''from'' (Message_From m), attr ''id'' (Message_Id m),
         attr ''to'' (Message_To m), attr ''type'' (Message_Type m)])
      = m\<lparr>Message_XMLName := messageName, Subject := [], Body := [], Thread := []\<rparr>"
    by (cases m)
       (simp add: decodedMessage_def elem_def attr_def messageAttr_def zero_Message_def
          messageName_def)
  show ?thesis
    unfolding a message_roundtrip_body by (cases m) simp
qed

lemma Recv_sent_message:
  assumes U: "decodesMessages U"
    and input: "toks (dec c) = tokensOf (messageElement m) @ ts"
  shows "Recv U c = Some (Return (Some (PMessage (m\<lparr>Message_XMLName := messageName\<rparr>)), None,
           c\<lparr>dec := (dec c)\<lparr>toks := ts\<rparr>\<rparr>))"
proof (rule Recv_message_body [OF U])
  show "seName (elem nsClient ''message''
        [attr ''xmlns'' nsClient, attr ''from'' (Message_From m), attr ''id'' (Message_Id m),
         attr ''to'' (Message_To m), attr ''type'' (Message_Type m)]) =
      \<lparr>Space = nsClient, Local = ''message''\<rparr>"
    by (simp add: elem_def)
  show "toks (dec c) = TStartElement (elem nsClient ''message''
        [attr ''xmlns'' nsClient, attr ''from'' (Message_From m), attr ''id'' (Message_Id m),
         attr ''to'' (Message_To m), attr ''type'' (Message_Type m)]) #
      (concat (map tokensOf
        [Element (elem nsClient ''subject'' []) (textNodes (Subject m)),
         Element (elem nsClient ''body'' []) (textNodes (Body m)),
         Element (elem nsClient ''thread'' []) (textNodes (Thread m))]) @
       TEndElement \<lparr>Space = nsClient, Local = ''message''\<rparr> # ts)"
    using input by (simp add: messageElement_def elem_def)
  show "messageBody (decodedMessage (elem nsClient ''message''
        [attr ''xmlns'' nsClient, attr ''from'' (Message_From m), attr ''id'' (Message_Id m),
         attr ''to'' (Message_To m), attr ''type'' (Message_Type m)]))
      (concat (map tokensOf
        [Element (elem nsClient ''subject'' []) (textNodes (Subject m)),
         Element (elem nsClient ''body'' []) (textNodes (Body m)),
         Element (elem nsClient ''thread'' []) (textNodes (Thread m))]) @
       TEndElement \<lparr>Space = nsClient, Local = ''message''\<rparr> # ts) =
      Some (m\<lparr>Message_XMLName := messageName\<rparr>, ts)"
    by (rule message_decoded)
qed

lemma presence_attrs:
  "Presence_Error p = None \<Longrightarrow>
   foldl presenceAttr (zero_Presence\<lparr>Presence_XMLName := presenceName\<rparr>)
     [attr ''xmlns'' nsClient, attr ''from'' (Presence_From p), attr ''id'' (Presence_Id p),
      attr ''to'' (Presence_To p), attr ''type'' (Presence_Type p),
      attr ''lang'' (Presence_Lang p), attr ''show'' (Presence_Show p),
      attr ''status'' (Presence_Status p), attr ''priority'' (Presence_Priority p)]
   = p\<lparr>Presence_XMLName := presenceName\<rparr>"
  by (cases p) (simp add: attr_def presenceAttr_def zero_Presence_def)

lemma Recv_sent_presence:
  assumes U: "decodesPresences U"
    and noerr: "Presence_Error p = None"
    and input: "toks (dec c) = tokensOf (presenceElement p) @ ts"
  shows "Recv U c = Some (Return (Some (PPresence (p\<lparr>Presence_XMLName := presenceName\<rparr>)), None,
           c\<lparr>dec := (dec c)\<lparr>toks := ts\<rparr>\<rparr>))"
proof -
  let ?se = "elem nsClient ''presence''
        [attr ''xmlns'' nsClient, attr ''from'' (Presence_From p), attr ''id'' (Presence_Id p),
         attr ''to'' (Presence_To p), attr ''type'' (Presence_Type p),
         attr ''lang'' (Presence_Lang p), attr ''show'' (Presence_Show p),
         attr ''status'' (Presence_Status p), attr ''priority'' (Presence_Priority p)]"
  let ?body = "TEndElement (seName ?se) # ts"
  have name: "seName ?se = \<lparr>Space = nsClient, Local = ''presence''\<rparr>"
    by (simp add: elem_def)
  have s: "nextStart (dec c) = Return (?se, None, (dec c)\<lparr>toks := ?body\<rparr>)"
    using input by (simp add: nextStart_Start presenceElement_def)
  have a: "foldl presenceAttr
        (zero_Presence\<lparr>Presence_XMLName := \<lparr>Space = nsClient, Local = ''presence''\<rparr>\<rparr>)
        (seAttr ?se)
      = p\<lparr>Presence_XMLName := presenceName\<rparr>"
    using presence_attrs [OF noerr] by (simp add: elem_def presenceName_def)
  have u: "U (PPresence zero_Presence) (Some ?se) ((dec c)\<lparr>toks := ?body\<rparr>) =
      (None, PPresence (p\<lparr>Presence_XMLName := presenceName\<rparr>), (dec c)\<lparr>toks := ts\<rparr>)"
    using U name by (simp add: decodesPresences_def unmarshalPresence_def Let_def a)
  have n: "next U (dec c) = Return (seName ?se,
      Some (PPresence (p\<lparr>Presence_XMLName := presenceName\<rparr>)), None, (dec c)\<lparr>toks := ts\<rparr>)"
    by (simp add: next_def s alloc_presence [OF name] DecodeElement_def u)
  show ?thesis
    by (subst Recv.simps) (simp add: n)
qed

text \<open>
  Claim C9, as the code has it.  Let the library decode messages and
  presences by the rules of encoding/xml.  When a message, or a presence
  without an error, is sent, and the other end reads from the markup the
  element that encoding/xml writes for the value, strings unchanged, then
  \<^verbatim>\<open>Recv\<close> there returns the value with \<^verbatim>\<open>XMLName\<close> set to the name of the
  element (message or presence in jabber:client) and every other field as it
  was.  The value received equals the value sent exactly when the value sent
  already held that name in \<^verbatim>\<open>XMLName\<close>.
\<close>

theorem send_then_receive:
  assumes "decodesMessages U" and "decodesPresences U"
  shows "(E (PMessage m) = (None, out) \<and> T out = tokensOf (messageElement m)
          \<and> toks (dec c') = T out @ ts \<longrightarrow>
            Send E c (PMessage m) = (None, c\<lparr>sent := sent c @ [out]\<rparr>)
          \<and> Recv U c' = Some (Return (Some (PMessage (m\<lparr>Message_XMLName := messageName\<rparr>)), None,
                           c'\<lparr>dec := (dec c')\<lparr>toks := ts\<rparr>\<rparr>))
          \<and> ((m\<lparr>Message_XMLName := messageName\<rparr> = m) = (Message_XMLName m = messageName)))
       \<and> (E (PPresence p) = (None, out) \<and> Presence_Error p = None
          \<and> T out = tokensOf (presenceElement p) \<and> toks (dec c') = T out @ ts \<longrightarrow>
            Send E c (PPresence p) = (None, c\<lparr>sent := sent c @ [out]\<rparr>)
          \<and> Recv U c' = Some (Return (Some (PPresence (p\<lparr>Presence_XMLName := presenceName\<rparr>)), None,
                           c'\<lparr>dec := (dec c')\<lparr>toks := ts\<rparr>\<rparr>))
          \<and> ((p\<lparr>Presence_XMLName := presenceName\<rparr> = p) = (Presence_XMLName p = presenceName)))"
proof (intro conjI impI)
  assume h: "E (PMessage m) = (None, out) \<and> T out = tokensOf (messageElement m)
          \<and> toks (dec c') = T out @ ts"
  then show "Send E c (PMessage m) = (None, c\<lparr>sent := sent c @ [out]\<rparr>)"
    by (simp add: Send_def Fprintf_def)
  from h have "toks (dec c') = tokensOf (messageElement m) @ ts" by simp
  with assms(1) show "Recv U c' =
      Some (Return (Some (PMessage (m\<lparr>Message_XMLName := messageName\<rparr>)), None,
        c'\<lparr>dec := (dec c')\<lparr>toks := ts\<rparr>\<rparr>))"
    by (rule Recv_sent_message)
  show "(m\<lparr>Message_XMLName := messageName\<rparr> = m) = (Message_XMLName m = messageName)"
    by (cases m) auto
next
  assume h: "E (PPresence p) = (None, out) \<and> Presence_Error p = None
          \<and> T out = tokensOf (presenceElement p) \<and> toks (dec c') = T out @ ts"
  then show "Send E c (PPresence p) = (None, c\<lparr>sent := sent c @ [out]\<rparr>)"
    by (simp add: Send_def Fprintf_def)
  from h have noerr: "Presence_Error p = None"
    and input: "toks (dec c') = tokensOf (presenceElement p) @ ts" by simp_all
  show "Recv U c' =
      Some (Return (Some (PPresence (p\<lparr>Presence_XMLName := presenceName\<rparr>)), None,
        c'\<lparr>dec := (dec c')\<lparr>toks := ts\<rparr>\<rparr>))"
    by (rule Recv_sent_presence [OF assms(2) noerr input])
  show "(p\<lparr>Presence_XMLName := presenceName\<rparr> = p) = (Presence_XMLName p = presenceName)"
    by (cases p) auto
qed

lemma stanzaLib_decodes: "decodesMessages stanzaLib" "decodesPresences stanzaLib"
  by (simp_all add: decodesMessages_def decodesPresences_def stanzaLib_def)

theorem send_then_receive_witness:
  "Send sampleEncoder (freshClient []) (PMessage hi) = (None, (freshClient [])\<lparr>sent := [hiMarkup]\<rparr>)
   \<and> Recv stanzaLib (freshClient (sampleReader hiMarkup)) =
       Some (Return (Some (PMessage (hi\<lparr>Message_XMLName := messageName\<rparr>)), None, freshClient []))
   \<and> Send sampleEncoder (freshClient []) (PPresence away) =
       (None, (freshClient [])\<lparr>sent := [awayMarkup]\<rparr>)
   \<and> Recv stanzaLib (freshClient (sampleReader awayMarkup)) =
       Some (Return (Some (PPresence away), None, freshClient []))"
proof -
  have ne: "hiMarkup \<noteq> awayMarkup"
    by (simp add: hiMarkup_def awayMarkup_def)
  have e1: "sampleEncoder (PMessage hi) = (None, hiMarkup)"
    by (simp add: sampleEncoder_def scriptedEncoder_def)
  have e2: "sampleEncoder (PPresence away) = (None, awayMarkup)"
    by (simp add: sampleEncoder_def scriptedEncoder_def)
  have t1: "sampleReader hiMarkup = tokensOf (messageElement hi)"
    by (simp add: sampleReader_def scriptedReader_def)
  have t2: "sampleReader awayMarkup = tokensOf (presenceElement away)"
    using ne by (simp add: sampleReader_def scriptedReader_def)
  have a: "Presence_Error away = None" "away\<lparr>Presence_XMLName := presenceName\<rparr> = away"
    by (simp_all add: away_def zero_Presence_def)
  from send_then_receive [OF stanzaLib_decodes, of sampleEncoder hi hiMarkup sampleReader
      "freshClient (sampleReader hiMarkup)" "[]" "freshClient []" away]
    send_then_receive [OF stanzaLib_decodes, of sampleEncoder hi awayMarkup sampleReader
      "freshClient (sampleReader awayMarkup)" "[]" "freshClient []" away]
    e1 e2 t1 t2 a
  show ?thesis
    by (simp add: freshClient_def rest_def)
qed

text \<open>
  Against claim C9 as stated: \<^verbatim>\<open>Message{Body: "hi"}\<close>, whose \<^verbatim>\<open>XMLName\<close>
  is empty, is written as a \<^verbatim>\<open>message\<close> element in jabber:client and comes
  back with that name in \<^verbatim>\<open>XMLName\<close>: not the value that was sent.
\<close>

theorem roundtrip_changes_name:
  "Recv stanzaLib (freshClient (tokensOf (messageElement hi))) =
     Some (Return (Some (PMessage (hi\<lparr>Message_XMLName := messageName\<rparr>)), None, freshClient []))
   \<and> hi\<lparr>Message_XMLName := messageName\<rparr> \<noteq> hi"
proof
  show "Recv stanzaLib (freshClient (tokensOf (messageElement hi))) =
     Some (Return (Some (PMessage (hi\<lparr>Message_XMLName := messageName\<rparr>)), None, freshClient []))"
    using Recv_sent_message [OF stanzaLib_decodes(1),
        of "freshClient (tokensOf (messageElement hi))" hi "[]"]
    by (simp add: freshClient_def rest_def)
  show "hi\<lparr>Message_XMLName := messageName\<rparr> \<noteq> hi"
    by (simp add: hi_def zero_Message_def zeroName_def messageName_def nsClient_def)
qed

end
